(* ===== verification/Prelude.thy ===== *)
theory Prelude
  imports Complex_Main "HOL-Library.Word"
begin

text \<open>
  Shared vocabulary of the ComputeEngine development: the machine types of the C++ sources
  (\<open>uint8_t\<close>, \<open>uint32_t\<close>, \<open>uint64_t\<close> as words), Vulkan handles as natural numbers
  with \<open>0\<close> playing \<open>VK_NULL_HANDLE\<close>, the ways the process can stop early
  (a failed \<open>assert\<close>, \<open>std::exit\<close>, an out-of-range \<open>std::vector\<close> index, an
  undefined float-to-byte conversion), the sum type that carries them, and the generic lemmas
  on maps, lists and real ceilings that the component theories share.
\<close>

type_synonym u8 = "8 word"
type_synonym u32 = "32 word"
type_synonym u64 = "64 word"

text \<open>A non-dispatchable or dispatchable Vulkan handle; \<open>0\<close> is \<open>VK_NULL_HANDLE\<close>.\<close>

type_synonym handle = nat

definition VK_NULL_HANDLE :: handle where
  "VK_NULL_HANDLE = 0"

text \<open>
  How the process ends before \<open>main\<close> returns. \<open>assert(cond && "msg")\<close> aborts with
  its message (the model is the debug build, where \<open>assert\<close> is active);
  \<open>std::exit(-1)\<close> ends with its code; indexing an empty \<open>std::vector\<close> and
  converting an out-of-range float to \<open>unsigned char\<close> are undefined behaviour, which the
  model makes visible as values instead of choosing an outcome.
\<close>

datatype abort =
    AssertFail string
  | ExitCall int
  | IndexOutOfRange string
  | NullDereference string
  | UndefinedConversion

named_theorems vk_simps "evaluation rules of the Vulkan API model"
named_theorems wf_intros "preservation rules of the object-store invariant"

subsection \<open>Maps\<close>

lemma map_upd_del_fresh [simp]:
  "m h = None \<Longrightarrow> (m(h \<mapsto> x))(h := None) = m"
  by (simp add: fun_eq_iff)

lemma map_upd_other_del:
  "a \<noteq> b \<Longrightarrow> (m(a \<mapsto> x))(b := None) = (m(b := None))(a \<mapsto> x)"
  by (simp add: fun_eq_iff)

subsection \<open>Ceilings of quotients\<close>

text \<open>
  The sources compute \<open>ceil(n / float(d))\<close> and \<open>long(ceil(n / 4.0)) * 4\<close> in floating
  point. On reals (exact rounding) this is the integer ceiling division, which is what the
  two call sites mean; the lemma is shared by the dispatch-size and the shader-padding models.
\<close>

lemma ceiling_divide_nat:
  assumes "0 < b"
  shows "nat \<lceil>real a / real b\<rceil> = (a + b - 1) div b"
proof -
  let ?q = "(a + b - 1) div b"
  have "?q * b \<le> a + b - 1" by (rule div_times_less_eq_dividend)
  moreover have "a + b - 1 < ?q * b + b"
    using assms by (metis div_mult_mod_eq mod_less_divisor nat_add_left_cancel_less)
  ultimately have lo: "a \<le> ?q * b" and hi: "?q * b < a + b" using assms by linarith+
  from lo have lo': "real a \<le> real ?q * real b" by (metis of_nat_le_iff of_nat_mult)
  from hi have hi': "real ?q * real b < real a + real b"
    by (metis of_nat_add of_nat_less_iff of_nat_mult)
  have "\<lceil>real a / real b\<rceil> = int ?q"
  proof (rule ceiling_unique)
    show "real a / real b \<le> real_of_int (int ?q)" using assms lo' by (simp add: divide_le_eq)
    have "real ?q - 1 < real a / real b"
      using assms hi' by (simp add: less_divide_eq algebra_simps)
    then show "real_of_int (int ?q) - 1 < real a / real b" by simp
  qed
  then show ?thesis by simp
qed

lemma ceiling_divide_cover:
  assumes "0 < b"
  shows "a \<le> nat \<lceil>real a / real b\<rceil> * b \<and> nat \<lceil>real a / real b\<rceil> * b < a + b"
proof -
  let ?q = "(a + b - 1) div b"
  have "?q * b \<le> a + b - 1" by (rule div_times_less_eq_dividend)
  moreover have "a + b - 1 < ?q * b + b"
    using assms by (metis div_mult_mod_eq mod_less_divisor nat_add_left_cancel_less)
  ultimately have "a \<le> ?q * b \<and> ?q * b < a + b" using assms by linarith
  then show ?thesis using assms by (simp only: ceiling_divide_nat)
qed

subsection \<open>32-bit words\<close>

lemma unat_of_nat_u32 [simp]: "n < 2 ^ 32 \<Longrightarrow> unat (word_of_nat n :: u32) = n"
  by (simp add: unat_of_nat take_bit_nat_eq_self)

text \<open>A \<open>uint32_t\<close> index below \<open>2^32 - 1\<close> never equals the \<open>-1\<close> sentinel.\<close>

lemma word_of_nat_u32_not_max:
  "k < 2 ^ 32 - 1 \<Longrightarrow> (word_of_nat k :: u32) \<noteq> - 1"
proof
  assume "k < 2 ^ 32 - 1" and "(word_of_nat k :: u32) = - 1"
  then have "unat (word_of_nat k :: u32) = unat (- 1 :: u32)" by simp
  with \<open>k < 2 ^ 32 - 1\<close> show False
    by (simp add: unat_of_nat take_bit_nat_eq_self unsigned_minus_1_eq_mask mask_eq_exp_minus_1)
qed

end
