(* ===== verification/VkObjects.thy ===== *)
theory VkObjects
  imports Prelude
begin

text \<open>
  The state that the Vulkan loader and driver keep on behalf of the program: the live objects
  (each with its parent and its type-specific state), the driver's data about the machine
  (layers, extensions, physical devices, files), the results the driver will return, and the
  valid-usage violations the program has committed so far. The Vulkan library is not code of
  this repository; this theory is the environment against which the wrappers of
  \<open>src/Vulkan/*.cpp\<close> are modelled, written from the Vulkan 1.0 specification's object
  lifetime and valid-usage rules. It also defines the object-tree invariant \<open>wf\<close>.
\<close>

datatype vk_result =
    VK_SUCCESS
  | VK_NOT_READY
  | VK_TIMEOUT
  | VK_ERROR_OUT_OF_HOST_MEMORY
  | VK_ERROR_OUT_OF_DEVICE_MEMORY
  | VK_ERROR_INITIALIZATION_FAILED
  | VK_ERROR_DEVICE_LOST
  | VK_ERROR_MEMORY_MAP_FAILED
  | VK_ERROR_LAYER_NOT_PRESENT
  | VK_ERROR_EXTENSION_NOT_PRESENT
  | VK_ERROR_FEATURE_NOT_PRESENT
  | VK_ERROR_TOO_MANY_OBJECTS
  | VK_ERROR_VALIDATION_FAILED_EXT

datatype vk_object_type =
    VK_OBJECT_TYPE_INSTANCE
  | VK_OBJECT_TYPE_DEBUG_REPORT_CALLBACK_EXT
  | VK_OBJECT_TYPE_DEVICE
  | VK_OBJECT_TYPE_BUFFER
  | VK_OBJECT_TYPE_DEVICE_MEMORY
  | VK_OBJECT_TYPE_DESCRIPTOR_SET_LAYOUT
  | VK_OBJECT_TYPE_DESCRIPTOR_POOL
  | VK_OBJECT_TYPE_DESCRIPTOR_SET
  | VK_OBJECT_TYPE_SHADER_MODULE
  | VK_OBJECT_TYPE_PIPELINE_LAYOUT
  | VK_OBJECT_TYPE_PIPELINE
  | VK_OBJECT_TYPE_COMMAND_POOL
  | VK_OBJECT_TYPE_COMMAND_BUFFER
  | VK_OBJECT_TYPE_FENCE

datatype vk_descriptor_type =
    VK_DESCRIPTOR_TYPE_UNIFORM_BUFFER
  | VK_DESCRIPTOR_TYPE_STORAGE_BUFFER
  | VK_DESCRIPTOR_TYPE_STORAGE_IMAGE

text \<open>The command-buffer lifecycle of the Vulkan specification (section 5.1).\<close>

datatype cb_state = CB_Initial | CB_Recording | CB_Executable | CB_Pending | CB_Invalid

text \<open>The commands this program records (\<open>vkCmd*\<close>), with the handles they reference.\<close>

datatype vk_cmd =
    CmdBindPipeline handle
  | CmdBindDescriptorSets handle handle
  | CmdDispatch u32 u32 u32

subsection \<open>The driver's view of the machine\<close>

record queue_family_properties =
  queueFlags :: u32
  queueCount :: u32

record physical_gpu =
  gpu_name :: string
  queue_families :: "queue_family_properties list"
  gpu_layers :: "string list"
  gpu_extensions :: "string list"
  memory_type_flags :: "u32 list"
  storage_buffer_type_bits :: u32
  max_group_count :: "u32 \<times> u32 \<times> u32"

record vk_env =
  env_layers :: "string list"
  env_extensions :: "string list"
  env_gpus :: "physical_gpu list"
  env_files :: "string \<rightharpoonup> u8 list"

text \<open>
  A \<open>VkPhysicalDevice\<close> is the instance it was enumerated from and the driver's record of
  the GPU; a \<open>VkQueue\<close> is the device and the queue family it belongs to.
\<close>

type_synonym vk_physical_device = "handle \<times> physical_gpu"
type_synonym vk_queue = "handle \<times> nat"

subsection \<open>Objects and the store\<close>

text \<open>
  The type-specific state of a live object. Its constructor is its \<open>VkObjectType\<close>.
\<close>

datatype obj_info =
    IInstance "string list"
  | IDebugReportCallback
  | IDevice physical_gpu nat
  | IBuffer nat "handle option"
  | IDeviceMemory nat nat bool
  | IDescriptorSetLayout vk_descriptor_type
  | IDescriptorPool nat
  | IDescriptorSet handle "(handle \<times> nat) option"
  | IShaderModule
  | IPipelineLayout "handle list"
  | IPipeline handle
  | ICommandPool nat
  | ICommandBuffer cb_state "vk_cmd list"
  | IFence bool

text \<open>
  The fields: \<open>IInstance\<close> the enabled extensions; \<open>IDevice\<close> the GPU and the queue
  family its queue was created in; \<open>IBuffer\<close> the size and the bound memory;
  \<open>IDeviceMemory\<close> the allocation size, the memory type index and whether it is mapped;
  \<open>IDescriptorSetLayout\<close> the type of binding 0; \<open>IDescriptorPool\<close> how many sets
  may still be allocated; \<open>IDescriptorSet\<close> its layout and the buffer (and range) written to
  binding 0; \<open>IPipelineLayout\<close> its set layouts; \<open>IPipeline\<close> its layout;
  \<open>ICommandPool\<close> its queue family; \<open>ICommandBuffer\<close> its lifecycle state and recorded
  commands; \<open>IFence\<close> whether it is signaled.
\<close>

fun obj_type :: "obj_info \<Rightarrow> vk_object_type" where
  "obj_type (IInstance _) = VK_OBJECT_TYPE_INSTANCE"
| "obj_type IDebugReportCallback = VK_OBJECT_TYPE_DEBUG_REPORT_CALLBACK_EXT"
| "obj_type (IDevice _ _) = VK_OBJECT_TYPE_DEVICE"
| "obj_type (IBuffer _ _) = VK_OBJECT_TYPE_BUFFER"
| "obj_type (IDeviceMemory _ _ _) = VK_OBJECT_TYPE_DEVICE_MEMORY"
| "obj_type (IDescriptorSetLayout _) = VK_OBJECT_TYPE_DESCRIPTOR_SET_LAYOUT"
| "obj_type (IDescriptorPool _) = VK_OBJECT_TYPE_DESCRIPTOR_POOL"
| "obj_type (IDescriptorSet _ _) = VK_OBJECT_TYPE_DESCRIPTOR_SET"
| "obj_type IShaderModule = VK_OBJECT_TYPE_SHADER_MODULE"
| "obj_type (IPipelineLayout _) = VK_OBJECT_TYPE_PIPELINE_LAYOUT"
| "obj_type (IPipeline _) = VK_OBJECT_TYPE_PIPELINE"
| "obj_type (ICommandPool _) = VK_OBJECT_TYPE_COMMAND_POOL"
| "obj_type (ICommandBuffer _ _) = VK_OBJECT_TYPE_COMMAND_BUFFER"
| "obj_type (IFence _) = VK_OBJECT_TYPE_FENCE"

text \<open>
  The parent each object type has in the Vulkan object tree: an instance has none; devices and
  debug callbacks belong to an instance; descriptor sets to their pool; command buffers to their
  pool; everything else to a device.
\<close>

fun parent_type :: "vk_object_type \<Rightarrow> vk_object_type option" where
  "parent_type VK_OBJECT_TYPE_INSTANCE = None"
| "parent_type VK_OBJECT_TYPE_DEBUG_REPORT_CALLBACK_EXT = Some VK_OBJECT_TYPE_INSTANCE"
| "parent_type VK_OBJECT_TYPE_DEVICE = Some VK_OBJECT_TYPE_INSTANCE"
| "parent_type VK_OBJECT_TYPE_DESCRIPTOR_SET = Some VK_OBJECT_TYPE_DESCRIPTOR_POOL"
| "parent_type VK_OBJECT_TYPE_COMMAND_BUFFER = Some VK_OBJECT_TYPE_COMMAND_POOL"
| "parent_type _ = Some VK_OBJECT_TYPE_DEVICE"

record vk_object =
  oparent :: handle
  oinfo :: obj_info

record vkstate =
  env :: vk_env
  objs :: "handle \<rightharpoonup> vk_object"
  next_handle :: handle
  responses :: "vk_result list"
  violations :: "string list"
  submitted :: "(handle \<times> handle) list"

text \<open>
  \<open>responses\<close> are the results the driver returns to the fallible calls, in order; once
  it is empty every call succeeds. \<open>submitted\<close> lists the queue submissions whose work has
  not been waited for: a command buffer and the fence signalled on completion.
  \<open>violations\<close> logs each call that broke a valid-usage rule; such a call changes nothing
  else.
\<close>

definition info_of :: "vkstate \<Rightarrow> handle \<Rightarrow> obj_info option" where
  "info_of s h = map_option oinfo (objs s h)"

definition parent_of :: "vkstate \<Rightarrow> handle \<Rightarrow> handle" where
  "parent_of s h = (case objs s h of Some ob \<Rightarrow> oparent ob | None \<Rightarrow> 0)"

definition is_type :: "vkstate \<Rightarrow> handle \<Rightarrow> vk_object_type \<Rightarrow> bool" where
  "is_type s h t = (case objs s h of Some ob \<Rightarrow> obj_type (oinfo ob) = t | None \<Rightarrow> False)"

definition owned_by :: "vkstate \<Rightarrow> handle \<Rightarrow> handle \<Rightarrow> vk_object_type \<Rightarrow> bool" where
  "owned_by s h p t = (case objs s h of Some ob \<Rightarrow> obj_type (oinfo ob) = t \<and> oparent ob = p | None \<Rightarrow> False)"

definition has_children :: "vkstate \<Rightarrow> handle \<Rightarrow> bool" where
  "has_children s p =
     (\<exists>c \<in> set [0..<next_handle s]. case objs s c of Some ob \<Rightarrow> oparent ob = p | None \<Rightarrow> False)"

text \<open>The handles whose parent is \<open>p\<close> in an object store.\<close>

definition children :: "(handle \<rightharpoonup> vk_object) \<Rightarrow> handle \<Rightarrow> handle set" where
  "children m p = {c. \<exists>ob. m c = Some ob \<and> oparent ob = p}"

subsection \<open>Elementary state changes\<close>

definition next_result :: "vkstate \<Rightarrow> vk_result \<times> vkstate" where
  "next_result s = (case responses s of [] \<Rightarrow> (VK_SUCCESS, s) | r # rs \<Rightarrow> (r, s\<lparr>responses := rs\<rparr>))"

definition violate :: "string \<Rightarrow> vkstate \<Rightarrow> vkstate" where
  "violate msg s = s\<lparr>violations := violations s @ [msg]\<rparr>"

definition alloc_obj :: "handle \<Rightarrow> obj_info \<Rightarrow> vkstate \<Rightarrow> handle \<times> vkstate" where
  "alloc_obj p i s =
     (let h = next_handle s
      in (h, s\<lparr>objs := (objs s)(h \<mapsto> \<lparr>oparent = p, oinfo = i\<rparr>), next_handle := Suc h\<rparr>))"

definition set_info :: "handle \<Rightarrow> obj_info \<Rightarrow> vkstate \<Rightarrow> vkstate" where
  "set_info h i s =
     (case objs s h of None \<Rightarrow> s | Some ob \<Rightarrow> s\<lparr>objs := (objs s)(h \<mapsto> ob\<lparr>oinfo := i\<rparr>)\<rparr>)"

definition remove_obj :: "handle \<Rightarrow> vkstate \<Rightarrow> vkstate" where
  "remove_obj h s = s\<lparr>objs := (objs s)(h := None)\<rparr>"

text \<open>Removing a pool also frees the objects allocated from it (descriptor sets, command buffers).\<close>

definition remove_with_children :: "handle \<Rightarrow> vkstate \<Rightarrow> vkstate" where
  "remove_with_children p s =
     s\<lparr>objs := (\<lambda>c. if c = p then None
                     else (case objs s c of
                             Some ob \<Rightarrow> if oparent ob = p then None else Some ob
                           | None \<Rightarrow> None))\<rparr>"

text \<open>
  A fallible creation call: a broken valid-usage rule is logged and reported as
  \<open>VK_ERROR_VALIDATION_FAILED_EXT\<close> (what the validation layer returns); otherwise the
  driver's next result decides, and on success a fresh handle is allocated.
\<close>

definition vk_create :: "bool \<Rightarrow> string \<Rightarrow> handle \<Rightarrow> obj_info \<Rightarrow> vkstate \<Rightarrow> (vk_result \<times> handle) \<times> vkstate" where
  "vk_create ok msg p i s =
     (if \<not> ok then ((VK_ERROR_VALIDATION_FAILED_EXT, VK_NULL_HANDLE), violate msg s)
      else (let (r, s1) = next_result s in
            if r = VK_SUCCESS then (let (h, s2) = alloc_obj p i s1 in ((VK_SUCCESS, h), s2))
            else ((r, VK_NULL_HANDLE), s1)))"

text \<open>
  A destruction call: destroying \<open>VK_NULL_HANDLE\<close> does nothing; otherwise the call is
  checked and the object goes, and with a pool the objects allocated from it.
\<close>

definition vk_destroy :: "bool \<Rightarrow> string \<Rightarrow> handle \<Rightarrow> vkstate \<Rightarrow> vkstate" where
  "vk_destroy ok msg h s = (if h = VK_NULL_HANDLE then s else if ok then remove_obj h s else violate msg s)"

definition vk_destroy_pool :: "bool \<Rightarrow> string \<Rightarrow> handle \<Rightarrow> vkstate \<Rightarrow> vkstate" where
  "vk_destroy_pool ok msg h s =
     (if h = VK_NULL_HANDLE then s else if ok then remove_with_children h s else violate msg s)"

subsection \<open>Work in flight\<close>

fun cmd_refs :: "vk_cmd \<Rightarrow> handle list" where
  "cmd_refs (CmdBindPipeline p) = [p]"
| "cmd_refs (CmdBindDescriptorSets l d) = [l, d]"
| "cmd_refs (CmdDispatch _ _ _) = []"

definition cb_cmds :: "vkstate \<Rightarrow> handle \<Rightarrow> vk_cmd list" where
  "cb_cmds s c = (case info_of s c of Some (ICommandBuffer _ cmds) \<Rightarrow> cmds | _ \<Rightarrow> [])"

text \<open>
  What a recorded handle keeps in use: a descriptor set also uses the buffer written into it,
  and the buffer the memory bound to it.
\<close>

definition res_closure :: "vkstate \<Rightarrow> handle \<Rightarrow> handle list" where
  "res_closure s h =
     h # (case info_of s h of
            Some (IDescriptorSet _ (Some (b, _))) \<Rightarrow>
              b # (case info_of s b of Some (IBuffer _ (Some m)) \<Rightarrow> [m] | _ \<Rightarrow> [])
          | _ \<Rightarrow> [])"

definition pending_handles :: "vkstate \<Rightarrow> handle list" where
  "pending_handles s =
     concat (map (\<lambda>(c, f). c # f # parent_of s c # concat (map (res_closure s) (concat (map cmd_refs (cb_cmds s c)))))
                 (submitted s))"

definition in_use :: "vkstate \<Rightarrow> handle \<Rightarrow> bool" where
  "in_use s h = (h \<in> set (pending_handles s))"

subsection \<open>The object-tree invariant\<close>

definition parent_ok :: "vkstate \<Rightarrow> vk_object \<Rightarrow> bool" where
  "parent_ok s ob =
     (case parent_type (obj_type (oinfo ob)) of
        None \<Rightarrow> oparent ob = VK_NULL_HANDLE
      | Some t \<Rightarrow> is_type s (oparent ob) t)"

definition submission_ok :: "vkstate \<Rightarrow> handle \<times> handle \<Rightarrow> bool" where
  "submission_ok s cf =
     ((case info_of s (fst cf) of Some (ICommandBuffer st _) \<Rightarrow> st = CB_Pending | _ \<Rightarrow> False)
      \<and> is_type s (snd cf) VK_OBJECT_TYPE_FENCE)"

text \<open>
  \<open>wf\<close>: the null handle is never live, every live handle was handed out
  (below \<open>next_handle\<close>), every live object's parent is live and of the type the object
  tree requires, and every submission names a pending command buffer and a live fence.
\<close>

definition wf :: "vkstate \<Rightarrow> bool" where
  "wf s =
     (objs s VK_NULL_HANDLE = None
      \<and> (\<forall>h ob. objs s h = Some ob \<longrightarrow> h < next_handle s \<and> parent_ok s ob)
      \<and> (\<forall>cf \<in> set (submitted s). submission_ok s cf))"

subsection \<open>Evaluation of the elementary changes\<close>

lemmas obj_queries = info_of_def is_type_def owned_by_def parent_of_def

lemma next_result_ok [simp]: "responses s = [] \<Longrightarrow> next_result s = (VK_SUCCESS, s)"
  by (simp add: next_result_def)

lemma next_result_Cons [simp]: "responses s = r # rs \<Longrightarrow> next_result s = (r, s\<lparr>responses := rs\<rparr>)"
  by (simp add: next_result_def)

lemma vk_create_ok:
  "ok \<Longrightarrow> responses s = [] \<Longrightarrow>
   vk_create ok msg p i s =
     ((VK_SUCCESS, next_handle s),
      s\<lparr>objs := (objs s)(next_handle s \<mapsto> \<lparr>oparent = p, oinfo = i\<rparr>), next_handle := Suc (next_handle s)\<rparr>)"
  by (simp add: vk_create_def alloc_obj_def Let_def)

lemma vk_create_invalid:
  "\<not> ok \<Longrightarrow> vk_create ok msg p i s = ((VK_ERROR_VALIDATION_FAILED_EXT, VK_NULL_HANDLE), violate msg s)"
  by (simp add: vk_create_def)

lemma vk_create_fails:
  "ok \<Longrightarrow> responses s = r # rs \<Longrightarrow> r \<noteq> VK_SUCCESS \<Longrightarrow>
   vk_create ok msg p i s = ((r, VK_NULL_HANDLE), s\<lparr>responses := rs\<rparr>)"
  by (simp add: vk_create_def)

lemma vk_destroy_ok:
  "h \<noteq> VK_NULL_HANDLE \<Longrightarrow> ok \<Longrightarrow> vk_destroy ok msg h s = s\<lparr>objs := (objs s)(h := None)\<rparr>"
  by (simp add: vk_destroy_def remove_obj_def)

lemma vk_destroy_invalid:
  "h \<noteq> VK_NULL_HANDLE \<Longrightarrow> \<not> ok \<Longrightarrow> vk_destroy ok msg h s = violate msg s"
  by (simp add: vk_destroy_def)

lemma vk_destroy_pool_ok:
  "h \<noteq> VK_NULL_HANDLE \<Longrightarrow> ok \<Longrightarrow> vk_destroy_pool ok msg h s = remove_with_children h s"
  by (simp add: vk_destroy_pool_def)

text \<open>
  The children of a handle after an allocation or a removal; with these rules \<open>simp\<close>
  computes the children of a pool in a store built by a sequence of calls.
\<close>

lemma children_upd [simp]:
  "children (m(k \<mapsto> v)) p = (if oparent v = p then insert k (children m p) else children m p - {k})"
  by (auto simp: children_def)

lemma children_del [simp]: "children (m(k := None)) p = children m p - {k}"
  by (auto simp: children_def)

lemma children_empty [simp]: "children Map.empty p = {}"
  by (simp add: children_def)

lemma remove_with_children_eq:
  "remove_with_children p s = s\<lparr>objs := \<lambda>c. if c = p \<or> c \<in> children (objs s) p then None else objs s c\<rparr>"
proof -
  have "\<And>c. (if c = p then None
              else (case objs s c of Some ob \<Rightarrow> if oparent ob = p then None else Some ob
                    | None \<Rightarrow> None)) = (if c = p \<or> c \<in> children (objs s) p then None else objs s c)"
    by (auto simp: children_def split: option.split)
  then show ?thesis by (simp add: remove_with_children_def)
qed

text \<open>Destroying a pool whose only child is \<open>d\<close> removes exactly the pool and \<open>d\<close>.\<close>

lemma remove_with_children_single:
  "children (objs s) p = {d} \<Longrightarrow> remove_with_children p s = s\<lparr>objs := (objs s)(d := None, p := None)\<rparr>"
  by (simp add: remove_with_children_eq fun_eq_iff)

text \<open>Destroying a pool with no children removes only the pool.\<close>

lemma remove_with_children_none:
  "children (objs s) p = {} \<Longrightarrow> remove_with_children p s = s\<lparr>objs := (objs s)(p := None)\<rparr>"
  by (simp add: remove_with_children_eq fun_eq_iff)

lemma set_info_Some:
  "objs s h = Some ob \<Longrightarrow> set_info h i s = s\<lparr>objs := (objs s)(h \<mapsto> ob\<lparr>oinfo := i\<rparr>)\<rparr>"
  by (simp add: set_info_def)

lemma violations_violate [simp]: "violations (violate msg s) = violations s @ [msg]"
  by (simp add: violate_def)

lemma wf_fresh: "wf s \<Longrightarrow> next_handle s \<le> h \<Longrightarrow> objs s h = None"
  by (cases "objs s h") (fastforce simp: wf_def)+

lemma wf_live_below: "wf s \<Longrightarrow> objs s h = Some ob \<Longrightarrow> h < next_handle s"
  by (auto simp: wf_def)

lemma has_children_iff:
  "(\<forall>h ob. objs s h = Some ob \<longrightarrow> h < next_handle s) \<Longrightarrow>
   has_children s p \<longleftrightarrow> children (objs s) p \<noteq> {}"
  by (fastforce simp: has_children_def children_def split: option.splits)

lemma wf_parent_below: "wf s \<Longrightarrow> objs s c = Some ob \<Longrightarrow> oparent ob < next_handle s"
proof -
  assume wf: "wf s" and ob: "objs s c = Some ob"
  then have c: "c < next_handle s" and pok: "parent_ok s ob" by (auto simp: wf_def)
  show ?thesis
  proof (cases "parent_type (obj_type (oinfo ob))")
    case None
    with pok c show ?thesis by (simp add: parent_ok_def VK_NULL_HANDLE_def)
  next
    case (Some t)
    with pok obtain pob where "objs s (oparent ob) = Some pob"
      by (auto simp: parent_ok_def is_type_def split: option.splits)
    with wf show ?thesis by (auto simp: wf_def)
  qed
qed

text \<open>No live object has a parent that was never handed out.\<close>

lemma wf_children_fresh: "wf s \<Longrightarrow> next_handle s \<le> p \<Longrightarrow> children (objs s) p = {}"
  using wf_parent_below [of s] by (fastforce simp: children_def)

lemma in_use_no_submissions [simp]: "submitted s = [] \<Longrightarrow> \<not> in_use s h"
  by (simp add: in_use_def pending_handles_def)

end
