(* ===== verification/VkApi.thy ===== *)
theory VkApi
  imports VkObjects
begin

unbundle bit_operations_syntax

text \<open>
  The Vulkan entry points that the sources call, as state transformers over
  \<^typ>\<open>vkstate\<close>. Each fallible call returns its \<open>VkResult\<close>, taken from the driver's
  \<open>responses\<close>; each call whose valid-usage rule is broken logs the rule's identifier in
  \<open>violations\<close> and changes nothing else. The rules modelled are those that the calls of
  this program can break: handle types and ownership, the object tree at destruction, the
  command-buffer lifecycle, fence and submission state, memory mapping, dispatch limits and
  shader code size.
\<close>

subsection \<open>Constants of the Vulkan headers\<close>

definition VK_QUEUE_GRAPHICS_BIT :: u32 where "VK_QUEUE_GRAPHICS_BIT = 1"
definition VK_QUEUE_COMPUTE_BIT :: u32 where "VK_QUEUE_COMPUTE_BIT = 2"
definition VK_QUEUE_TRANSFER_BIT :: u32 where "VK_QUEUE_TRANSFER_BIT = 4"

definition VK_MEMORY_PROPERTY_DEVICE_LOCAL_BIT :: u32 where "VK_MEMORY_PROPERTY_DEVICE_LOCAL_BIT = 1"
definition VK_MEMORY_PROPERTY_HOST_VISIBLE_BIT :: u32 where "VK_MEMORY_PROPERTY_HOST_VISIBLE_BIT = 2"
definition VK_MEMORY_PROPERTY_HOST_COHERENT_BIT :: u32 where "VK_MEMORY_PROPERTY_HOST_COHERENT_BIT = 4"

definition SPIRV_MAGIC :: u32 where "SPIRV_MAGIC = 0x07230203"

definition VK_EXT_DEBUG_REPORT_EXTENSION_NAME :: string where
  "VK_EXT_DEBUG_REPORT_EXTENSION_NAME = ''VK_EXT_debug_report''"

lemmas vk_constants =
  VK_QUEUE_GRAPHICS_BIT_def VK_QUEUE_COMPUTE_BIT_def VK_QUEUE_TRANSFER_BIT_def
  VK_MEMORY_PROPERTY_DEVICE_LOCAL_BIT_def VK_MEMORY_PROPERTY_HOST_VISIBLE_BIT_def
  VK_MEMORY_PROPERTY_HOST_COHERENT_BIT_def SPIRV_MAGIC_def VK_EXT_DEBUG_REPORT_EXTENSION_NAME_def

text \<open>Bit \<open>i\<close> of a \<open>memoryTypeBits\<close> mask, tested as the sources test it: \<open>bits & (1 << i)\<close>.\<close>

definition type_bit_set :: "u32 \<Rightarrow> nat \<Rightarrow> bool" where
  "type_bit_set bits i = ((bits AND push_bit i 1) \<noteq> 0)"

definition device_gpu :: "vkstate \<Rightarrow> handle \<Rightarrow> physical_gpu option" where
  "device_gpu s d = (case info_of s d of Some (IDevice g _) \<Rightarrow> Some g | _ \<Rightarrow> None)"

definition device_family :: "vkstate \<Rightarrow> handle \<Rightarrow> nat option" where
  "device_family s d = (case info_of s d of Some (IDevice _ f) \<Rightarrow> Some f | _ \<Rightarrow> None)"

definition memory_type_has :: "physical_gpu \<Rightarrow> nat \<Rightarrow> u32 \<Rightarrow> bool" where
  "memory_type_has g ty flags =
     (ty < length (memory_type_flags g) \<and> (memory_type_flags g ! ty AND flags) = flags)"

subsection \<open>Instance and physical devices\<close>

definition vkEnumerateInstanceLayerProperties :: "vkstate \<Rightarrow> string list" where
  "vkEnumerateInstanceLayerProperties s = env_layers (env s)"

definition vkEnumerateInstanceExtensionProperties :: "vkstate \<Rightarrow> string list" where
  "vkEnumerateInstanceExtensionProperties s = env_extensions (env s)"

definition vkCreateInstance :: "string list \<Rightarrow> string list \<Rightarrow> vkstate \<Rightarrow> (vk_result \<times> handle) \<times> vkstate" where
  "vkCreateInstance layers exts s =
     (if \<not> set layers \<subseteq> set (env_layers (env s)) then ((VK_ERROR_LAYER_NOT_PRESENT, VK_NULL_HANDLE), s)
      else if \<not> set exts \<subseteq> set (env_extensions (env s)) then ((VK_ERROR_EXTENSION_NOT_PRESENT, VK_NULL_HANDLE), s)
      else vk_create True [] VK_NULL_HANDLE (IInstance exts) s)"

text \<open>
  \<open>vkGetInstanceProcAddr\<close> for the two entry points of \<open>VK_EXT_debug_report\<close>:
  non-null (\<open>True\<close>) exactly when the instance is live and was created with that extension
  enabled.
\<close>

definition vkGetInstanceProcAddr :: "handle \<Rightarrow> string \<Rightarrow> vkstate \<Rightarrow> bool" where
  "vkGetInstanceProcAddr inst name s =
     (case info_of s inst of
        Some (IInstance exts) \<Rightarrow>
          name \<in> {''vkCreateDebugReportCallbackEXT'', ''vkDestroyDebugReportCallbackEXT''}
          \<and> VK_EXT_DEBUG_REPORT_EXTENSION_NAME \<in> set exts
      | _ \<Rightarrow> False)"

definition vkCreateDebugReportCallbackEXT :: "handle \<Rightarrow> vkstate \<Rightarrow> (vk_result \<times> handle) \<times> vkstate" where
  "vkCreateDebugReportCallbackEXT inst s =
     vk_create (is_type s inst VK_OBJECT_TYPE_INSTANCE)
       ''VUID-vkCreateDebugReportCallbackEXT-instance-parameter'' inst IDebugReportCallback s"

definition vkDestroyDebugReportCallbackEXT :: "handle \<Rightarrow> handle \<Rightarrow> vkstate \<Rightarrow> vkstate" where
  "vkDestroyDebugReportCallbackEXT inst cb s =
     vk_destroy (owned_by s cb inst VK_OBJECT_TYPE_DEBUG_REPORT_CALLBACK_EXT)
       ''VUID-vkDestroyDebugReportCallbackEXT-callback-parent'' cb s"

definition vkDestroyInstance :: "handle \<Rightarrow> vkstate \<Rightarrow> vkstate" where
  "vkDestroyInstance inst s =
     vk_destroy (is_type s inst VK_OBJECT_TYPE_INSTANCE \<and> \<not> has_children s inst)
       ''VUID-vkDestroyInstance-instance-00629'' inst s"

definition vkEnumeratePhysicalDevices :: "handle \<Rightarrow> vkstate \<Rightarrow> vk_physical_device list" where
  "vkEnumeratePhysicalDevices inst s = map (\<lambda>g. (inst, g)) (env_gpus (env s))"

definition vkGetPhysicalDeviceQueueFamilyProperties :: "vk_physical_device \<Rightarrow> queue_family_properties list" where
  "vkGetPhysicalDeviceQueueFamilyProperties pd = queue_families (snd pd)"

definition vkEnumerateDeviceLayerProperties :: "vk_physical_device \<Rightarrow> string list" where
  "vkEnumerateDeviceLayerProperties pd = gpu_layers (snd pd)"

definition vkEnumerateDeviceExtensionProperties :: "vk_physical_device \<Rightarrow> string list" where
  "vkEnumerateDeviceExtensionProperties pd = gpu_extensions (snd pd)"

definition vkGetPhysicalDeviceProperties :: "vk_physical_device \<Rightarrow> string" where
  "vkGetPhysicalDeviceProperties pd = gpu_name (snd pd)"

definition vkGetPhysicalDeviceMemoryProperties :: "vk_physical_device \<Rightarrow> u32 list" where
  "vkGetPhysicalDeviceMemoryProperties pd = memory_type_flags (snd pd)"

subsection \<open>Devices and queues\<close>

text \<open>
  Device layers are deprecated since Vulkan 1.0.13 and ignored by the loader; unsupported
  device extensions make the call fail. The queue family must exist and offer a queue.
\<close>

definition vkCreateDevice :: "vk_physical_device \<Rightarrow> nat \<Rightarrow> string list \<Rightarrow> vkstate \<Rightarrow> (vk_result \<times> handle) \<times> vkstate" where
  "vkCreateDevice pd family exts s =
     (if \<not> set exts \<subseteq> set (gpu_extensions (snd pd)) then ((VK_ERROR_EXTENSION_NOT_PRESENT, VK_NULL_HANDLE), s)
      else vk_create (is_type s (fst pd) VK_OBJECT_TYPE_INSTANCE \<and> family < length (queue_families (snd pd))
                      \<and> 0 < unat (queueCount (queue_families (snd pd) ! family)))
             ''VUID-VkDeviceQueueCreateInfo-queueFamilyIndex-00381'' (fst pd) (IDevice (snd pd) family) s)"

definition vkGetDeviceQueue :: "handle \<Rightarrow> nat \<Rightarrow> nat \<Rightarrow> vkstate \<Rightarrow> vk_queue \<times> vkstate" where
  "vkGetDeviceQueue dev family idx s =
     (if device_family s dev = Some family \<and> idx = 0 then ((dev, family), s)
      else ((dev, family), violate ''VUID-vkGetDeviceQueue-queueFamilyIndex-00384'' s))"

definition vkDestroyDevice :: "handle \<Rightarrow> vkstate \<Rightarrow> vkstate" where
  "vkDestroyDevice dev s =
     vk_destroy (is_type s dev VK_OBJECT_TYPE_DEVICE \<and> \<not> has_children s dev)
       ''VUID-vkDestroyDevice-device-00378'' dev s"

subsection \<open>Buffers and device memory\<close>

definition vkCreateBuffer :: "handle \<Rightarrow> nat \<Rightarrow> vkstate \<Rightarrow> (vk_result \<times> handle) \<times> vkstate" where
  "vkCreateBuffer dev bsize s =
     vk_create (is_type s dev VK_OBJECT_TYPE_DEVICE \<and> 0 < bsize)
       ''VUID-VkBufferCreateInfo-size-00912'' dev (IBuffer bsize None) s"

text \<open>
  The requirements of a storage buffer: its size (drivers may round it up; the model does not)
  and the GPU's mask of memory types a storage buffer may live in.
\<close>

definition vkGetBufferMemoryRequirements :: "handle \<Rightarrow> handle \<Rightarrow> vkstate \<Rightarrow> nat \<times> u32" where
  "vkGetBufferMemoryRequirements dev buf s =
     (case (info_of s buf, device_gpu s dev) of
        (Some (IBuffer bsize _), Some g) \<Rightarrow> (bsize, storage_buffer_type_bits g)
      | _ \<Rightarrow> (0, 0))"

definition vkAllocateMemory :: "handle \<Rightarrow> nat \<Rightarrow> nat \<Rightarrow> vkstate \<Rightarrow> (vk_result \<times> handle) \<times> vkstate" where
  "vkAllocateMemory dev bsize ty s =
     vk_create (case device_gpu s dev of Some g \<Rightarrow> ty < length (memory_type_flags g) \<and> 0 < bsize | None \<Rightarrow> False)
       ''VUID-vkAllocateMemory-pAllocateInfo-01714'' dev (IDeviceMemory bsize ty False) s"

definition vkBindBufferMemory :: "handle \<Rightarrow> handle \<Rightarrow> handle \<Rightarrow> nat \<Rightarrow> vkstate \<Rightarrow> vk_result \<times> vkstate" where
  "vkBindBufferMemory dev buf mem off s =
     (case (info_of s buf, info_of s mem, device_gpu s dev) of
        (Some (IBuffer bsize None), Some (IDeviceMemory msize ty _), Some g) \<Rightarrow>
          if parent_of s buf = dev \<and> parent_of s mem = dev
             \<and> type_bit_set (storage_buffer_type_bits g) ty \<and> off + bsize \<le> msize
          then (let (r, s1) = next_result s in
                if r = VK_SUCCESS then (r, set_info buf (IBuffer bsize (Some mem)) s1) else (r, s1))
          else (VK_ERROR_VALIDATION_FAILED_EXT, violate ''VUID-vkBindBufferMemory-memory-01035'' s)
      | _ \<Rightarrow> (VK_ERROR_VALIDATION_FAILED_EXT, violate ''VUID-vkBindBufferMemory-buffer-01029'' s))"

definition vkFreeMemory :: "handle \<Rightarrow> handle \<Rightarrow> vkstate \<Rightarrow> vkstate" where
  "vkFreeMemory dev mem s =
     vk_destroy (owned_by s mem dev VK_OBJECT_TYPE_DEVICE_MEMORY \<and> \<not> in_use s mem)
       ''VUID-vkFreeMemory-memory-00677'' mem s"

definition vkDestroyBuffer :: "handle \<Rightarrow> handle \<Rightarrow> vkstate \<Rightarrow> vkstate" where
  "vkDestroyBuffer dev buf s =
     vk_destroy (owned_by s buf dev VK_OBJECT_TYPE_BUFFER \<and> \<not> in_use s buf)
       ''VUID-vkDestroyBuffer-buffer-00922'' buf s"

definition vkMapMemory :: "handle \<Rightarrow> handle \<Rightarrow> nat \<Rightarrow> nat \<Rightarrow> vkstate \<Rightarrow> vk_result \<times> vkstate" where
  "vkMapMemory dev mem off bsize s =
     (case (info_of s mem, device_gpu s dev) of
        (Some (IDeviceMemory msize ty False), Some g) \<Rightarrow>
          if parent_of s mem = dev \<and> 0 < bsize \<and> off + bsize \<le> msize
             \<and> memory_type_has g ty VK_MEMORY_PROPERTY_HOST_VISIBLE_BIT
          then (let (r, s1) = next_result s in
                if r = VK_SUCCESS then (r, set_info mem (IDeviceMemory msize ty True) s1) else (r, s1))
          else (VK_ERROR_VALIDATION_FAILED_EXT, violate ''VUID-vkMapMemory-size-00681'' s)
      | _ \<Rightarrow> (VK_ERROR_VALIDATION_FAILED_EXT, violate ''VUID-vkMapMemory-memory-00678'' s))"

definition vkUnmapMemory :: "handle \<Rightarrow> handle \<Rightarrow> vkstate \<Rightarrow> vkstate" where
  "vkUnmapMemory dev mem s =
     (case info_of s mem of
        Some (IDeviceMemory msize ty True) \<Rightarrow>
          if parent_of s mem = dev then set_info mem (IDeviceMemory msize ty False) s
          else violate ''VUID-vkUnmapMemory-memory-parent'' s
      | _ \<Rightarrow> violate ''VUID-vkUnmapMemory-memory-00689'' s)"

text \<open>
  A host read through a mapping. Reading memory that pending GPU work still writes is a data
  race in the Vulkan memory model; the model logs it like a valid-usage violation.
\<close>

definition host_read :: "handle \<Rightarrow> vkstate \<Rightarrow> vkstate" where
  "host_read mem s =
     (case info_of s mem of
        Some (IDeviceMemory _ _ True) \<Rightarrow>
          if in_use s mem then violate ''host read races with pending device writes'' s else s
      | _ \<Rightarrow> violate ''host read of unmapped memory'' s)"

subsection \<open>Descriptor sets\<close>

definition vkCreateDescriptorSetLayout :: "handle \<Rightarrow> vk_descriptor_type \<Rightarrow> vkstate \<Rightarrow> (vk_result \<times> handle) \<times> vkstate" where
  "vkCreateDescriptorSetLayout dev ty s =
     vk_create (is_type s dev VK_OBJECT_TYPE_DEVICE)
       ''VUID-vkCreateDescriptorSetLayout-device-parameter'' dev (IDescriptorSetLayout ty) s"

definition vkCreateDescriptorPool :: "handle \<Rightarrow> nat \<Rightarrow> vkstate \<Rightarrow> (vk_result \<times> handle) \<times> vkstate" where
  "vkCreateDescriptorPool dev max_sets s =
     vk_create (is_type s dev VK_OBJECT_TYPE_DEVICE \<and> 0 < max_sets)
       ''VUID-VkDescriptorPoolCreateInfo-maxSets-00301'' dev (IDescriptorPool max_sets) s"

definition vkAllocateDescriptorSets :: "handle \<Rightarrow> handle \<Rightarrow> handle \<Rightarrow> vkstate \<Rightarrow> (vk_result \<times> handle) \<times> vkstate" where
  "vkAllocateDescriptorSets dev pool layout s =
     (case info_of s pool of
        Some (IDescriptorPool n) \<Rightarrow>
          if parent_of s pool = dev \<and> owned_by s layout dev VK_OBJECT_TYPE_DESCRIPTOR_SET_LAYOUT \<and> 0 < n
          then vk_create True [] pool (IDescriptorSet layout None) (set_info pool (IDescriptorPool (n - 1)) s)
          else ((VK_ERROR_VALIDATION_FAILED_EXT, VK_NULL_HANDLE),
                violate ''VUID-VkDescriptorSetAllocateInfo-descriptorSetCount-00306'' s)
      | _ \<Rightarrow> ((VK_ERROR_VALIDATION_FAILED_EXT, VK_NULL_HANDLE),
              violate ''VUID-VkDescriptorSetAllocateInfo-descriptorPool-parameter'' s))"

text \<open>
  One \<open>VkWriteDescriptorSet\<close> of a buffer range into a binding: the binding must be 0 (the
  only one of the layouts here), its type the layout's, the range inside the buffer, and the
  set not in use by pending work.
\<close>

definition vkUpdateDescriptorSets :: "handle \<Rightarrow> handle \<Rightarrow> nat \<Rightarrow> vk_descriptor_type \<Rightarrow> handle \<Rightarrow> nat \<Rightarrow> nat \<Rightarrow> vkstate \<Rightarrow> vkstate" where
  "vkUpdateDescriptorSets dev ds binding ty buf off rng s =
     (case info_of s ds of
        Some (IDescriptorSet l _) \<Rightarrow>
          (case (info_of s l, info_of s buf) of
             (Some (IDescriptorSetLayout lty), Some (IBuffer bsize _)) \<Rightarrow>
               if binding = 0 \<and> ty = lty \<and> 0 < rng \<and> off + rng \<le> bsize \<and> \<not> in_use s ds
               then set_info ds (IDescriptorSet l (Some (buf, rng))) s
               else violate ''VUID-VkWriteDescriptorSet-descriptorType-00330'' s
           | _ \<Rightarrow> violate ''VUID-VkWriteDescriptorSet-buffer-parameter'' s)
      | _ \<Rightarrow> violate ''VUID-VkWriteDescriptorSet-dstSet-parameter'' s)"

definition vkDestroyDescriptorPool :: "handle \<Rightarrow> handle \<Rightarrow> vkstate \<Rightarrow> vkstate" where
  "vkDestroyDescriptorPool dev pool s =
     vk_destroy_pool (owned_by s pool dev VK_OBJECT_TYPE_DESCRIPTOR_POOL \<and> \<not> in_use s pool)
       ''VUID-vkDestroyDescriptorPool-descriptorPool-00303'' pool s"

definition vkDestroyDescriptorSetLayout :: "handle \<Rightarrow> handle \<Rightarrow> vkstate \<Rightarrow> vkstate" where
  "vkDestroyDescriptorSetLayout dev l s =
     vk_destroy (owned_by s l dev VK_OBJECT_TYPE_DESCRIPTOR_SET_LAYOUT)
       ''VUID-vkDestroyDescriptorSetLayout-descriptorSetLayout-parent'' l s"

subsection \<open>Shader modules and pipelines\<close>

text \<open>
  \<open>codeSize\<close> is in bytes and must be a positive multiple of 4; \<open>pCode\<close> must hold
  that many bytes of SPIR-V, which starts with the magic number.
\<close>

definition vkCreateShaderModule :: "handle \<Rightarrow> nat \<Rightarrow> u32 list \<Rightarrow> vkstate \<Rightarrow> (vk_result \<times> handle) \<times> vkstate" where
  "vkCreateShaderModule dev code_size code s =
     vk_create (is_type s dev VK_OBJECT_TYPE_DEVICE \<and> 0 < code_size \<and> code_size mod 4 = 0
                \<and> code_size div 4 \<le> length code
                \<and> (case code of w # _ \<Rightarrow> w = SPIRV_MAGIC | [] \<Rightarrow> False))
       ''VUID-VkShaderModuleCreateInfo-codeSize-01085'' dev IShaderModule s"

definition vkCreatePipelineLayout :: "handle \<Rightarrow> handle list \<Rightarrow> vkstate \<Rightarrow> (vk_result \<times> handle) \<times> vkstate" where
  "vkCreatePipelineLayout dev layouts s =
     vk_create (is_type s dev VK_OBJECT_TYPE_DEVICE
                \<and> list_all (\<lambda>l. owned_by s l dev VK_OBJECT_TYPE_DESCRIPTOR_SET_LAYOUT) layouts)
       ''VUID-VkPipelineLayoutCreateInfo-pSetLayouts-parameter'' dev (IPipelineLayout layouts) s"

definition vkCreateComputePipelines :: "handle \<Rightarrow> handle \<Rightarrow> handle \<Rightarrow> vkstate \<Rightarrow> (vk_result \<times> handle) \<times> vkstate" where
  "vkCreateComputePipelines dev shader layout s =
     vk_create (owned_by s shader dev VK_OBJECT_TYPE_SHADER_MODULE
                \<and> owned_by s layout dev VK_OBJECT_TYPE_PIPELINE_LAYOUT)
       ''VUID-VkComputePipelineCreateInfo-layout-parameter'' dev (IPipeline layout) s"

definition vkDestroyShaderModule :: "handle \<Rightarrow> handle \<Rightarrow> vkstate \<Rightarrow> vkstate" where
  "vkDestroyShaderModule dev m s =
     vk_destroy (owned_by s m dev VK_OBJECT_TYPE_SHADER_MODULE)
       ''VUID-vkDestroyShaderModule-shaderModule-parent'' m s"

text \<open>
  Destroying a layout or a pipeline that pending work uses is refused (for the layout the
  specification only forbids command buffers in the recording state; the model is stricter).
\<close>

definition vkDestroyPipelineLayout :: "handle \<Rightarrow> handle \<Rightarrow> vkstate \<Rightarrow> vkstate" where
  "vkDestroyPipelineLayout dev l s =
     vk_destroy (owned_by s l dev VK_OBJECT_TYPE_PIPELINE_LAYOUT \<and> \<not> in_use s l)
       ''VUID-vkDestroyPipelineLayout-pipelineLayout-02004'' l s"

definition vkDestroyPipeline :: "handle \<Rightarrow> handle \<Rightarrow> vkstate \<Rightarrow> vkstate" where
  "vkDestroyPipeline dev p s =
     vk_destroy (owned_by s p dev VK_OBJECT_TYPE_PIPELINE \<and> \<not> in_use s p)
       ''VUID-vkDestroyPipeline-pipeline-00765'' p s"

subsection \<open>Command pools and command buffers\<close>

definition vkCreateCommandPool :: "handle \<Rightarrow> nat \<Rightarrow> vkstate \<Rightarrow> (vk_result \<times> handle) \<times> vkstate" where
  "vkCreateCommandPool dev family s =
     vk_create (device_family s dev = Some family)
       ''VUID-vkCreateCommandPool-queueFamilyIndex-01937'' dev (ICommandPool family) s"

definition vkAllocateCommandBuffers :: "handle \<Rightarrow> handle \<Rightarrow> vkstate \<Rightarrow> (vk_result \<times> handle) \<times> vkstate" where
  "vkAllocateCommandBuffers dev pool s =
     vk_create (owned_by s pool dev VK_OBJECT_TYPE_COMMAND_POOL)
       ''VUID-VkCommandBufferAllocateInfo-commandPool-parameter'' pool (ICommandBuffer CB_Initial []) s"

text \<open>A pool created without \<open>RESET_COMMAND_BUFFER_BIT\<close> only begins buffers in the initial state.\<close>

definition vkBeginCommandBuffer :: "handle \<Rightarrow> vkstate \<Rightarrow> vk_result \<times> vkstate" where
  "vkBeginCommandBuffer cb s =
     (case info_of s cb of
        Some (ICommandBuffer CB_Initial _) \<Rightarrow>
          (let (r, s1) = next_result s in
           if r = VK_SUCCESS then (r, set_info cb (ICommandBuffer CB_Recording []) s1) else (r, s1))
      | _ \<Rightarrow> (VK_ERROR_VALIDATION_FAILED_EXT, violate ''VUID-vkBeginCommandBuffer-commandBuffer-00049'' s))"

definition record_cmd :: "handle \<Rightarrow> bool \<Rightarrow> string \<Rightarrow> vk_cmd \<Rightarrow> vkstate \<Rightarrow> vkstate" where
  "record_cmd cb ok msg c s =
     (case info_of s cb of
        Some (ICommandBuffer CB_Recording cmds) \<Rightarrow>
          if ok then set_info cb (ICommandBuffer CB_Recording (cmds @ [c])) s else violate msg s
      | _ \<Rightarrow> violate ''VUID-vkCmd-commandBuffer-recording'' s)"

definition vkCmdBindPipeline :: "handle \<Rightarrow> handle \<Rightarrow> vkstate \<Rightarrow> vkstate" where
  "vkCmdBindPipeline cb p s =
     record_cmd cb (is_type s p VK_OBJECT_TYPE_PIPELINE)
       ''VUID-vkCmdBindPipeline-pipeline-parameter'' (CmdBindPipeline p) s"

definition vkCmdBindDescriptorSets :: "handle \<Rightarrow> handle \<Rightarrow> handle \<Rightarrow> vkstate \<Rightarrow> vkstate" where
  "vkCmdBindDescriptorSets cb layout ds s =
     record_cmd cb (is_type s layout VK_OBJECT_TYPE_PIPELINE_LAYOUT \<and> is_type s ds VK_OBJECT_TYPE_DESCRIPTOR_SET)
       ''VUID-vkCmdBindDescriptorSets-pDescriptorSets-parameter'' (CmdBindDescriptorSets layout ds) s"

definition cb_gpu :: "vkstate \<Rightarrow> handle \<Rightarrow> physical_gpu option" where
  "cb_gpu s cb = device_gpu s (parent_of s (parent_of s cb))"

definition bound_pipeline :: "vk_cmd list \<Rightarrow> bool" where
  "bound_pipeline cmds = list_ex (\<lambda>c. case c of CmdBindPipeline _ \<Rightarrow> True | _ \<Rightarrow> False) cmds"

definition bound_descriptor_set :: "vk_cmd list \<Rightarrow> bool" where
  "bound_descriptor_set cmds = list_ex (\<lambda>c. case c of CmdBindDescriptorSets _ _ \<Rightarrow> True | _ \<Rightarrow> False) cmds"

text \<open>
  A dispatch needs a bound compute pipeline and descriptor set, and each group count within
  the device's \<open>maxComputeWorkGroupCount\<close>.
\<close>

definition dispatch_ok :: "vkstate \<Rightarrow> handle \<Rightarrow> u32 \<Rightarrow> u32 \<Rightarrow> u32 \<Rightarrow> bool" where
  "dispatch_ok s cb x y z =
     (bound_pipeline (cb_cmds s cb) \<and> bound_descriptor_set (cb_cmds s cb)
      \<and> (case cb_gpu s cb of
           Some g \<Rightarrow> (case max_group_count g of (mx, my, mz) \<Rightarrow> x \<le> mx \<and> y \<le> my \<and> z \<le> mz)
         | None \<Rightarrow> False))"

definition vkCmdDispatch :: "handle \<Rightarrow> u32 \<Rightarrow> u32 \<Rightarrow> u32 \<Rightarrow> vkstate \<Rightarrow> vkstate" where
  "vkCmdDispatch cb x y z s =
     record_cmd cb (dispatch_ok s cb x y z) ''VUID-vkCmdDispatch-groupCountX-00386'' (CmdDispatch x y z) s"

definition vkEndCommandBuffer :: "handle \<Rightarrow> vkstate \<Rightarrow> vk_result \<times> vkstate" where
  "vkEndCommandBuffer cb s =
     (case info_of s cb of
        Some (ICommandBuffer CB_Recording cmds) \<Rightarrow>
          (let (r, s1) = next_result s in
           if r = VK_SUCCESS then (r, set_info cb (ICommandBuffer CB_Executable cmds) s1) else (r, s1))
      | _ \<Rightarrow> (VK_ERROR_VALIDATION_FAILED_EXT, violate ''VUID-vkEndCommandBuffer-commandBuffer-00059'' s))"

definition vkFreeCommandBuffers :: "handle \<Rightarrow> handle \<Rightarrow> handle \<Rightarrow> vkstate \<Rightarrow> vkstate" where
  "vkFreeCommandBuffers dev pool cb s =
     vk_destroy (owned_by s cb pool VK_OBJECT_TYPE_COMMAND_BUFFER \<and> parent_of s pool = dev \<and> \<not> in_use s cb)
       ''VUID-vkFreeCommandBuffers-pCommandBuffers-00047'' cb s"

definition vkDestroyCommandPool :: "handle \<Rightarrow> handle \<Rightarrow> vkstate \<Rightarrow> vkstate" where
  "vkDestroyCommandPool dev pool s =
     vk_destroy_pool (owned_by s pool dev VK_OBJECT_TYPE_COMMAND_POOL \<and> \<not> in_use s pool)
       ''VUID-vkDestroyCommandPool-commandPool-00041'' pool s"

subsection \<open>Fences, submission and waiting\<close>

definition vkCreateFence :: "handle \<Rightarrow> vkstate \<Rightarrow> (vk_result \<times> handle) \<times> vkstate" where
  "vkCreateFence dev s =
     vk_create (is_type s dev VK_OBJECT_TYPE_DEVICE)
       ''VUID-vkCreateFence-device-parameter'' dev (IFence False) s"

definition vkDestroyFence :: "handle \<Rightarrow> handle \<Rightarrow> vkstate \<Rightarrow> vkstate" where
  "vkDestroyFence dev f s =
     vk_destroy (owned_by s f dev VK_OBJECT_TYPE_FENCE \<and> \<not> in_use s f)
       ''VUID-vkDestroyFence-fence-01120'' f s"

text \<open>
  Submitting one executable command buffer with a fence: the fence must be unsignaled and not
  already used by a pending submission, and the buffer's pool must belong to the queue's family.
\<close>

definition vkQueueSubmit :: "vk_queue \<Rightarrow> handle \<Rightarrow> handle \<Rightarrow> vkstate \<Rightarrow> vk_result \<times> vkstate" where
  "vkQueueSubmit q cb f s =
     (case (info_of s cb, info_of s f, info_of s (parent_of s cb)) of
        (Some (ICommandBuffer CB_Executable cmds), Some (IFence False), Some (ICommandPool fam)) \<Rightarrow>
          if \<not> in_use s f \<and> fam = snd q \<and> device_family s (fst q) = Some fam
             \<and> parent_of s (parent_of s cb) = fst q
          then (let (r, s1) = next_result s in
                if r = VK_SUCCESS
                then (r, (set_info cb (ICommandBuffer CB_Pending cmds) s1)\<lparr>submitted := submitted s1 @ [(cb, f)]\<rparr>)
                else (r, s1))
          else (VK_ERROR_VALIDATION_FAILED_EXT, violate ''VUID-vkQueueSubmit-fence-00064'' s)
      | _ \<Rightarrow> (VK_ERROR_VALIDATION_FAILED_EXT, violate ''VUID-vkQueueSubmit-pCommandBuffers-00070'' s))"

text \<open>
  Completion of the work a fence guards: each command buffer recorded with
  \<open>ONE_TIME_SUBMIT\<close> moves to the invalid state, the fence is signaled, and the submissions
  leave the pending list.
\<close>

definition complete_fence :: "handle \<Rightarrow> vkstate \<Rightarrow> vkstate" where
  "complete_fence f s =
     (let done = map fst (filter (\<lambda>cf. snd cf = f) (submitted s));
          s1 = fold (\<lambda>c. set_info c (ICommandBuffer CB_Invalid (cb_cmds s c))) done s
      in (set_info f (IFence True) s1)\<lparr>submitted := filter (\<lambda>cf. snd cf \<noteq> f) (submitted s)\<rparr>)"

text \<open>
  Waiting on one fence: the driver answers \<open>VK_SUCCESS\<close> when the work completed within the
  timeout (and it has completed), \<open>VK_TIMEOUT\<close> when it did not, or an error.
\<close>

definition vkWaitForFences :: "handle \<Rightarrow> handle \<Rightarrow> u64 \<Rightarrow> vkstate \<Rightarrow> vk_result \<times> vkstate" where
  "vkWaitForFences dev f timeout s =
     (if owned_by s f dev VK_OBJECT_TYPE_FENCE
      then (let (r, s1) = next_result s in
            if r = VK_SUCCESS then (r, complete_fence f s1) else (r, s1))
      else (VK_ERROR_VALIDATION_FAILED_EXT, violate ''VUID-vkWaitForFences-pFences-parent'' s))"

subsection \<open>Running the program's functions\<close>

text \<open>
  A function of the sources either returns a value with the new state or stops the process.
  \<open>bindR\<close> sequences two of them as the C++ statements are sequenced.
\<close>

type_synonym 'a run = "abort + 'a \<times> vkstate"

definition bindR :: "'a run \<Rightarrow> ('a \<Rightarrow> vkstate \<Rightarrow> 'b run) \<Rightarrow> 'b run" where
  "bindR m f = (case m of Inl e \<Rightarrow> Inl e | Inr (a, s) \<Rightarrow> f a s)"

lemma bindR_Inl [simp]: "bindR (Inl e) f = Inl e"
  by (simp add: bindR_def)

lemma bindR_Inr [simp]: "bindR (Inr (a, s)) f = f a s"
  by (simp add: bindR_def)

lemma bindR_assoc: "bindR (bindR m f) g = bindR m (\<lambda>a s. bindR (f a s) g)"
  by (simp add: bindR_def split: sum.splits)

end
