(* ===== verification/Instance.thy ===== *)
theory Instance
  imports VkApi
begin

text \<open>
  \<open>src/Vulkan/VulkanInstance.h\<close> and \<open>VulkanInstance.cpp\<close>: the required layer and
  extension names, the support check that exits the process when one is missing, the creation
  of the instance with its debug-report callback, and their destruction. The printing to
  \<open>std::cout\<close>, the \<open>std::cin.get()\<close> pause and the callback's message formatting
  are I/O and are not modelled; the callback function pointer is not modelled either.
\<close>

record VulkanInstance =
  vulkan_instance :: handle
  debug_report_callback :: handle

definition instance_layer_names :: "string list" where
  "instance_layer_names = [''VK_LAYER_LUNARG_standard_validation'']"

definition instance_extension_names :: "string list" where
  "instance_extension_names = [VK_EXT_DEBUG_REPORT_EXTENSION_NAME]"

subsection \<open>The support check\<close>

text \<open>
  The inner loop: \<open>for (j = 0; j < count; j++) if (name == props[j].name) { found = true;
  break; }\<close>.
\<close>

fun find_name :: "string \<Rightarrow> string list \<Rightarrow> bool" where
  "find_name n [] = False"
| "find_name n (p # ps) = (if n = p then True else find_name n ps)"

text \<open>
  The outer loop over the required names: the first name the inner loop does not find, if
  any. \<open>CheckDeviceSupport\<close> in \<open>VulkanDevice.cpp\<close> runs the same pair of loops.
\<close>

fun first_missing :: "string list \<Rightarrow> string list \<Rightarrow> string option" where
  "first_missing [] avail = None"
| "first_missing (n # ns) avail = (if \<not> find_name n avail then Some n else first_missing ns avail)"

definition CheckInstanceSupport :: "vkstate \<Rightarrow> unit run" where
  "CheckInstanceSupport s =
     (case first_missing instance_layer_names (vkEnumerateInstanceLayerProperties s) of
        Some _ \<Rightarrow> Inl (ExitCall (-1))
      | None \<Rightarrow>
          (case first_missing instance_extension_names (vkEnumerateInstanceExtensionProperties s) of
             Some _ \<Rightarrow> Inl (ExitCall (-1))
           | None \<Rightarrow> Inr ((), s)))"

subsection \<open>Creation and destruction\<close>

definition CreateDebugCallback :: "handle \<Rightarrow> vkstate \<Rightarrow> handle run" where
  "CreateDebugCallback inst s =
     (if \<not> vkGetInstanceProcAddr inst ''vkCreateDebugReportCallbackEXT'' s
      then Inl (AssertFail ''CreateDebugReportCallback != nullptr'')
      else (let ((result, cb), s1) = vkCreateDebugReportCallbackEXT inst s in
            if result \<noteq> VK_SUCCESS then Inl (AssertFail ''Could not create debug report callback'')
            else Inr (cb, s1)))"

definition CreateVulkanInstance :: "vkstate \<Rightarrow> VulkanInstance run" where
  "CreateVulkanInstance s0 =
     bindR (CheckInstanceSupport s0) (\<lambda>_ s1.
       (let ((result, inst), s2) = vkCreateInstance instance_layer_names instance_extension_names s1 in
        if result \<noteq> VK_SUCCESS then Inl (AssertFail ''Could not create vulkan instance'')
        else bindR (CreateDebugCallback inst s2) (\<lambda>cb s3.
               Inr (\<lparr>vulkan_instance = inst, debug_report_callback = cb\<rparr>, s3))))"

definition DestroyDebugCallback :: "handle \<Rightarrow> handle \<Rightarrow> vkstate \<Rightarrow> unit run" where
  "DestroyDebugCallback inst cb s =
     (if \<not> vkGetInstanceProcAddr inst ''vkDestroyDebugReportCallbackEXT'' s
      then Inl (AssertFail ''DestroyDebugReportCallback != nullptr'')
      else Inr ((), vkDestroyDebugReportCallbackEXT inst cb s))"

definition DestroyVulkanInstance :: "VulkanInstance \<Rightarrow> vkstate \<Rightarrow> unit run" where
  "DestroyVulkanInstance i s =
     bindR (DestroyDebugCallback (vulkan_instance i) (debug_report_callback i) s) (\<lambda>_ s1.
       Inr ((), vkDestroyInstance (vulkan_instance i) s1))"

subsection \<open>The support check is set inclusion\<close>

lemma find_name_iff [simp]: "find_name n ps \<longleftrightarrow> n \<in> set ps"
  by (induction ps) auto

lemma first_missing_None [simp]: "first_missing req avail = None \<longleftrightarrow> set req \<subseteq> set avail"
  by (induction req) auto

text \<open>
  C1: the nested search loops report the first required name that the driver does not list:
  every name before it is listed, and it is not.
\<close>

lemma first_missing_Some:
  "first_missing req avail = Some n \<longleftrightarrow>
     (\<exists>pre post. req = pre @ n # post \<and> set pre \<subseteq> set avail \<and> n \<notin> set avail)"
proof (induction req)
  case Nil
  then show ?case by simp
next
  case (Cons m req)
  show ?case
  proof (cases "m \<in> set avail")
    case True
    have "(\<exists>pre post. m # req = pre @ n # post \<and> set pre \<subseteq> set avail \<and> n \<notin> set avail) \<longleftrightarrow>
          (\<exists>pre post. req = pre @ n # post \<and> set pre \<subseteq> set avail \<and> n \<notin> set avail)"
    proof
      assume "\<exists>pre post. m # req = pre @ n # post \<and> set pre \<subseteq> set avail \<and> n \<notin> set avail"
      then obtain pre post where eq: "m # req = pre @ n # post"
        and sub: "set pre \<subseteq> set avail" and n: "n \<notin> set avail" by blast
      with True obtain pre' where "pre = m # pre'" by (cases pre) auto
      with eq sub n show "\<exists>pre post. req = pre @ n # post \<and> set pre \<subseteq> set avail \<and> n \<notin> set avail"
        by auto
    next
      assume "\<exists>pre post. req = pre @ n # post \<and> set pre \<subseteq> set avail \<and> n \<notin> set avail"
      then obtain pre post where "req = pre @ n # post" "set pre \<subseteq> set avail" "n \<notin> set avail"
        by blast
      with True show "\<exists>pre post. m # req = pre @ n # post \<and> set pre \<subseteq> set avail \<and> n \<notin> set avail"
        by (intro exI [of _ "m # pre"] exI [of _ post]) auto
    qed
    with True Cons.IH show ?thesis by simp
  next
    case False
    have "(\<exists>pre post. m # req = pre @ n # post \<and> set pre \<subseteq> set avail \<and> n \<notin> set avail) \<longleftrightarrow> n = m"
    proof
      assume "\<exists>pre post. m # req = pre @ n # post \<and> set pre \<subseteq> set avail \<and> n \<notin> set avail"
      then obtain pre post where eq: "m # req = pre @ n # post" and sub: "set pre \<subseteq> set avail"
        by blast
      with False show "n = m" by (cases pre) auto
    next
      assume "n = m"
      with False show "\<exists>pre post. m # req = pre @ n # post \<and> set pre \<subseteq> set avail \<and> n \<notin> set avail"
        by (intro exI [of _ "[]"] exI [of _ req]) auto
    qed
    with False show ?thesis by auto
  qed
qed

text \<open>
  C2: \<open>CheckInstanceSupport\<close> leaves the state alone when the driver lists the validation
  layer and the debug-report extension, and otherwise ends the process with \<open>exit(-1)\<close>.
\<close>

lemma CheckInstanceSupport_spec:
  "CheckInstanceSupport s =
     (if set instance_layer_names \<subseteq> set (env_layers (env s))
         \<and> set instance_extension_names \<subseteq> set (env_extensions (env s))
      then Inr ((), s) else Inl (ExitCall (-1)))"
proof -
  let ?l = "first_missing instance_layer_names (env_layers (env s))"
  let ?e = "first_missing instance_extension_names (env_extensions (env s))"
  show ?thesis
    by (cases ?l; cases ?e) (simp_all add: CheckInstanceSupport_def
        vkEnumerateInstanceLayerProperties_def vkEnumerateInstanceExtensionProperties_def
        flip: first_missing_None)
qed

subsection \<open>Creating and destroying the instance\<close>

text \<open>
  C3: with a driver that lists the validation layer and the debug-report extension and accepts
  every call, \<open>CreateVulkanInstance\<close> creates the instance and a debug-report callback owned
  by it at the next two handles and changes nothing else; in particular the assertion on
  \<open>vkGetInstanceProcAddr\<close> cannot fire, since the instance enables the extension whose
  entry point it then asks for.
\<close>

lemma CreateVulkanInstance_ok:
  assumes "responses s = []"
    and "set instance_layer_names \<subseteq> set (env_layers (env s))"
    and "set instance_extension_names \<subseteq> set (env_extensions (env s))"
    and "next_handle s = h"
  shows "CreateVulkanInstance s =
           Inr (\<lparr>vulkan_instance = h, debug_report_callback = Suc h\<rparr>,
                s\<lparr>objs := (objs s)(h \<mapsto> \<lparr>oparent = VK_NULL_HANDLE, oinfo = IInstance instance_extension_names\<rparr>,
                                   Suc h \<mapsto> \<lparr>oparent = h, oinfo = IDebugReportCallback\<rparr>),
                   next_handle := Suc (Suc h)\<rparr>)"
  using assms
  by (simp add: CreateVulkanInstance_def CheckInstanceSupport_spec vkCreateInstance_def vk_create_ok
      CreateDebugCallback_def vkGetInstanceProcAddr_def vkCreateDebugReportCallbackEXT_def obj_queries
      instance_extension_names_def)

text \<open>
  C4: when the driver refuses \<open>vkCreateInstance\<close> (any result but \<open>VK_SUCCESS\<close>), the
  process stops at the assertion \<open>Could not create vulkan instance\<close>.
\<close>

lemma CreateVulkanInstance_fails:
  assumes "set instance_layer_names \<subseteq> set (env_layers (env s))"
    and "set instance_extension_names \<subseteq> set (env_extensions (env s))"
    and "responses s = r # rs" and "r \<noteq> VK_SUCCESS"
  shows "CreateVulkanInstance s = Inl (AssertFail ''Could not create vulkan instance'')"
  using assms
  by (simp add: CreateVulkanInstance_def CheckInstanceSupport_spec vkCreateInstance_def vk_create_fails)

text \<open>
  Destroying an instance whose only remaining child is its debug callback removes both, the
  callback first, without a valid-usage violation.
\<close>

lemma DestroyVulkanInstance_ok:
  assumes "objs s (vulkan_instance i) = Some \<lparr>oparent = VK_NULL_HANDLE, oinfo = IInstance exts\<rparr>"
    and "VK_EXT_DEBUG_REPORT_EXTENSION_NAME \<in> set exts"
    and "objs s (debug_report_callback i) = Some \<lparr>oparent = vulkan_instance i, oinfo = IDebugReportCallback\<rparr>"
    and "\<forall>h ob. objs s h = Some ob \<longrightarrow> h < next_handle s"
    and "children (objs s) (vulkan_instance i) = {debug_report_callback i}"
    and "vulkan_instance i \<noteq> VK_NULL_HANDLE" and "debug_report_callback i \<noteq> VK_NULL_HANDLE"
  shows "DestroyVulkanInstance i s =
           Inr ((), s\<lparr>objs := (objs s)(debug_report_callback i := None, vulkan_instance i := None)\<rparr>)"
proof -
  let ?s1 = "s\<lparr>objs := (objs s)(debug_report_callback i := None)\<rparr>"
  have "\<not> has_children ?s1 (vulkan_instance i)"
    using assms(4,5) by (subst has_children_iff) simp_all
  moreover have "vulkan_instance i \<noteq> debug_report_callback i"
    using assms(1,3) by auto
  ultimately show ?thesis
    using assms(1,2,3,6,7)
    by (simp add: DestroyVulkanInstance_def DestroyDebugCallback_def vkGetInstanceProcAddr_def
        vkDestroyDebugReportCallbackEXT_def vkDestroyInstance_def vk_destroy_ok obj_queries)
qed

end
