(* ===== verification/Device.thy ===== *)
theory Device
  imports Instance
begin

unbundle bit_operations_syntax

text \<open>
  \<open>src/Vulkan/VulkanDevice.h\<close> and \<open>VulkanDevice.cpp\<close>: choosing the physical devices
  that have a compute queue family and the required device layers and extensions, creating a
  logical device with one compute queue on each of them, and destroying them.
  \<open>VkPhysicalDeviceProperties\<close> is modelled by the device name, the only field the
  program reads. The printing of unsupported layers and extensions is I/O.
\<close>

definition device_layer_names :: "string list" where
  "device_layer_names = [''VK_LAYER_LUNARG_standard_validation'']"

definition device_extension_names :: "string list" where
  "device_extension_names = []"

record SupportedPhysicalDevice =
  spd_physical_device :: vk_physical_device
  spd_queue_index :: u32
  spd_device_properties :: string

record SupportedDevice =
  physical_device :: vk_physical_device
  device :: handle
  queue_index :: u32
  queue :: vk_queue
  device_properties :: string

subsection \<open>Queue family selection\<close>

text \<open>
  The \<open>while\<close> loop of \<open>GetQueueFamilyIndex\<close>: the index of the first family with a
  queue and the compute bit, or the number of families when there is none. The counter is a
  \<open>uint32_t\<close> compared with \<open>size()\<close>; it cannot wrap, since the driver reports the
  count as a \<open>uint32_t\<close>.
\<close>

definition is_compute_family :: "queue_family_properties \<Rightarrow> bool" where
  "is_compute_family props = (0 < queueCount props \<and> (queueFlags props AND VK_QUEUE_COMPUTE_BIT) \<noteq> 0)"

fun find_compute_family :: "queue_family_properties list \<Rightarrow> nat \<Rightarrow> nat" where
  "find_compute_family [] i = i"
| "find_compute_family (p # ps) i = (if is_compute_family p then i else find_compute_family ps (Suc i))"

definition GetQueueFamilyIndex :: "vk_physical_device \<Rightarrow> u32" where
  "GetQueueFamilyIndex pd =
     (let queue_families = vkGetPhysicalDeviceQueueFamilyProperties pd;
          i = find_compute_family queue_families 0
      in if i = length queue_families then -1 else word_of_nat i)"

definition CheckDeviceSupport :: "vk_physical_device \<Rightarrow> bool" where
  "CheckDeviceSupport pd =
     (case first_missing device_layer_names (vkEnumerateDeviceLayerProperties pd) of
        Some _ \<Rightarrow> False
      | None \<Rightarrow>
          (case first_missing device_extension_names (vkEnumerateDeviceExtensionProperties pd) of
             Some _ \<Rightarrow> False
           | None \<Rightarrow> True))"

subsection \<open>Physical devices\<close>

text \<open>The loop of \<open>FindPhysicalDevices\<close> that keeps the supported devices, in order.\<close>

fun find_supported :: "vk_physical_device list \<Rightarrow> SupportedPhysicalDevice list" where
  "find_supported [] = []"
| "find_supported (d # ds) =
     (let queue_index = GetQueueFamilyIndex d in
      if queue_index \<noteq> -1 \<and> CheckDeviceSupport d
      then \<lparr>spd_physical_device = d, spd_queue_index = queue_index,
            spd_device_properties = vkGetPhysicalDeviceProperties d\<rparr> # find_supported ds
      else find_supported ds)"

definition FindPhysicalDevices :: "handle \<Rightarrow> vkstate \<Rightarrow> SupportedPhysicalDevice list run" where
  "FindPhysicalDevices inst s =
     (let devices = vkEnumeratePhysicalDevices inst s in
      if length devices = 0 then Inl (AssertFail ''No compute devices found'')
      else Inr (find_supported devices, s))"

subsection \<open>Logical devices\<close>

definition CreateDevice :: "SupportedPhysicalDevice \<Rightarrow> vkstate \<Rightarrow> SupportedDevice run" where
  "CreateDevice pd s =
     (let ((result, dev), s1) =
            vkCreateDevice (spd_physical_device pd) (unat (spd_queue_index pd)) device_extension_names s in
      if result \<noteq> VK_SUCCESS then Inl (AssertFail ''Could not create device'')
      else (let (q, s2) = vkGetDeviceQueue dev (unat (spd_queue_index pd)) 0 s1 in
            Inr (\<lparr>physical_device = spd_physical_device pd, device = dev,
                  queue_index = spd_queue_index pd, queue = q,
                  device_properties = spd_device_properties pd\<rparr>, s2)))"

text \<open>The loop of \<open>CreateDevices\<close>: \<open>devices[i] = CreateDevice(physical_devices[i])\<close>.\<close>

fun create_devices :: "SupportedPhysicalDevice list \<Rightarrow> vkstate \<Rightarrow> SupportedDevice list run" where
  "create_devices [] s = Inr ([], s)"
| "create_devices (p # ps) s =
     bindR (CreateDevice p s) (\<lambda>d s1. bindR (create_devices ps s1) (\<lambda>ds s2. Inr (d # ds, s2)))"

definition CreateDevices :: "handle \<Rightarrow> vkstate \<Rightarrow> SupportedDevice list run" where
  "CreateDevices inst s = bindR (FindPhysicalDevices inst s) create_devices"

fun DestroyDevices :: "SupportedDevice list \<Rightarrow> vkstate \<Rightarrow> vkstate" where
  "DestroyDevices [] s = s"
| "DestroyDevices (d # ds) s = DestroyDevices ds (vkDestroyDevice (device d) s)"

subsection \<open>The devices the creation loop produces\<close>

text \<open>
  Not code: the records and objects that \<open>CreateDevices\<close> produces when every call
  succeeds, one per selected physical device at consecutive handles, used to state the
  behaviour of the two device loops.
\<close>

definition device_object :: "SupportedPhysicalDevice \<Rightarrow> vk_object" where
  "device_object p = \<lparr>oparent = fst (spd_physical_device p),
                      oinfo = IDevice (snd (spd_physical_device p)) (unat (spd_queue_index p))\<rparr>"

definition device_record :: "SupportedPhysicalDevice \<Rightarrow> handle \<Rightarrow> SupportedDevice" where
  "device_record p h =
     \<lparr>physical_device = spd_physical_device p, device = h, queue_index = spd_queue_index p,
      queue = (h, unat (spd_queue_index p)), device_properties = spd_device_properties p\<rparr>"

fun device_records :: "SupportedPhysicalDevice list \<Rightarrow> handle \<Rightarrow> SupportedDevice list" where
  "device_records [] h = []"
| "device_records (p # ps) h = device_record p h # device_records ps (Suc h)"

fun device_objects :: "SupportedPhysicalDevice list \<Rightarrow> handle \<Rightarrow> handle \<rightharpoonup> vk_object" where
  "device_objects [] h = Map.empty"
| "device_objects (p # ps) h = (device_objects ps (Suc h))(h \<mapsto> device_object p)"

definition queue_family_ok :: "SupportedPhysicalDevice \<Rightarrow> bool" where
  "queue_family_ok p =
     (unat (spd_queue_index p) < length (queue_families (snd (spd_physical_device p)))
      \<and> 0 < unat (queueCount (queue_families (snd (spd_physical_device p)) ! unat (spd_queue_index p))))"

subsection \<open>Queue families and device selection\<close>

lemma find_compute_family_takeWhile:
  "find_compute_family ps i = i + length (takeWhile (\<lambda>p. \<not> is_compute_family p) ps)"
  by (induction ps arbitrary: i) auto

text \<open>
  The queue-family search in closed form: the sentinel when no family offers compute,
  otherwise the length of the prefix of families without compute.
\<close>

lemma GetQueueFamilyIndex_eq:
  "GetQueueFamilyIndex pd =
     (if list_ex is_compute_family (queue_families (snd pd))
      then word_of_nat (length (takeWhile (\<lambda>p. \<not> is_compute_family p) (queue_families (snd pd))))
      else -1)"
proof -
  have "length (takeWhile (\<lambda>p. \<not> is_compute_family p) xs) = length xs \<longleftrightarrow> \<not> list_ex is_compute_family xs"
    for xs by (induction xs) auto
  then show ?thesis
    by (simp add: GetQueueFamilyIndex_def vkGetPhysicalDeviceQueueFamilyProperties_def
        find_compute_family_takeWhile)
qed

text \<open>The index of the first compute family fits in a \<open>uint32_t\<close> and is not the sentinel.\<close>

lemma compute_index_word:
  assumes "list_ex is_compute_family fs" and "length fs < 2 ^ 32"
  shows "word_of_nat (length (takeWhile (\<lambda>p. \<not> is_compute_family p) fs)) \<noteq> (-1 :: u32)
         \<and> unat (word_of_nat (length (takeWhile (\<lambda>p. \<not> is_compute_family p) fs)) :: u32)
             = length (takeWhile (\<lambda>p. \<not> is_compute_family p) fs)
         \<and> length (takeWhile (\<lambda>p. \<not> is_compute_family p) fs) < length fs"
proof -
  let ?k = "length (takeWhile (\<lambda>p. \<not> is_compute_family p) fs)"
  have "?k < length fs"
    using assms(1) by (induction fs) auto
  with assms(2) have "?k < 2 ^ 32 - 1" by simp
  with \<open>?k < length fs\<close> show ?thesis
    using word_of_nat_u32_not_max by simp
qed

text \<open>
  C5: \<open>GetQueueFamilyIndex\<close> returns the \<open>-1\<close> sentinel exactly when no queue family
  offers a compute queue; otherwise it returns the index of the first family that does, and
  that index is never mistaken for the sentinel (the family count is a \<open>uint32_t\<close>).
\<close>

lemma GetQueueFamilyIndex_spec:
  assumes "length (queue_families (snd pd)) < 2 ^ 32"
  shows "GetQueueFamilyIndex pd = -1 \<and> list_all (\<lambda>p. \<not> is_compute_family p) (queue_families (snd pd))
         \<or> GetQueueFamilyIndex pd \<noteq> -1
           \<and> unat (GetQueueFamilyIndex pd) < length (queue_families (snd pd))
           \<and> is_compute_family (queue_families (snd pd) ! unat (GetQueueFamilyIndex pd))
           \<and> list_all (\<lambda>p. \<not> is_compute_family p) (take (unat (GetQueueFamilyIndex pd)) (queue_families (snd pd)))"
proof (cases "list_ex is_compute_family (queue_families (snd pd))")
  case True
  let ?fs = "queue_families (snd pd)"
  let ?k = "length (takeWhile (\<lambda>p. \<not> is_compute_family p) ?fs)"
  from compute_index_word [OF True assms] have w: "word_of_nat ?k \<noteq> (-1 :: u32)"
    "unat (word_of_nat ?k :: u32) = ?k" "?k < length ?fs" by auto
  have "is_compute_family (?fs ! ?k)" using w(3) nth_length_takeWhile by blast
  moreover have "list_all (\<lambda>p. \<not> is_compute_family p) (take ?k ?fs)"
    by (metis list_all_iff set_takeWhileD takeWhile_eq_take)
  ultimately show ?thesis using True w by (simp add: GetQueueFamilyIndex_eq)
next
  case False
  then show ?thesis by (simp add: GetQueueFamilyIndex_eq list_ex_iff list_all_iff)
qed

text \<open>The selection loop of \<open>FindPhysicalDevices\<close> is a filter followed by a map.\<close>

lemma find_supported_filter:
  "find_supported ds =
     map (\<lambda>d. \<lparr>spd_physical_device = d, spd_queue_index = GetQueueFamilyIndex d,
               spd_device_properties = vkGetPhysicalDeviceProperties d\<rparr>)
         (filter (\<lambda>d. GetQueueFamilyIndex d \<noteq> -1 \<and> CheckDeviceSupport d) ds)"
  by (induction ds) (auto simp: Let_def)

lemma CheckDeviceSupport_spec:
  "CheckDeviceSupport pd \<longleftrightarrow> set device_layer_names \<subseteq> set (gpu_layers (snd pd))"
  by (cases "first_missing device_layer_names (gpu_layers (snd pd))")
     (simp_all add: CheckDeviceSupport_def vkEnumerateDeviceLayerProperties_def device_extension_names_def
       flip: first_missing_None)
text \<open>
  C6: \<open>FindPhysicalDevices\<close> stops at its assertion when the driver reports no physical
  device. Otherwise it keeps, in the driver's order, exactly the devices that have a queue
  family with a compute queue and list every required device layer and extension, and pairs
  each with the index of its first compute family (for family counts that fit the
  \<open>uint32_t\<close> counter).
\<close>

lemma FindPhysicalDevices_spec:
  assumes "\<forall>g \<in> set (env_gpus (env s)). length (queue_families g) < 2 ^ 32"
  shows "FindPhysicalDevices inst s =
     (if env_gpus (env s) = [] then Inl (AssertFail ''No compute devices found'')
      else Inr (map (\<lambda>g. \<lparr>spd_physical_device = (inst, g),
                           spd_queue_index =
                             word_of_nat (length (takeWhile (\<lambda>p. \<not> is_compute_family p) (queue_families g))),
                           spd_device_properties = gpu_name g\<rparr>)
                  (filter (\<lambda>g. list_ex is_compute_family (queue_families g)
                               \<and> set device_layer_names \<subseteq> set (gpu_layers g)
                               \<and> set device_extension_names \<subseteq> set (gpu_extensions g))
                          (env_gpus (env s))), s))"
proof -
  let ?P = "\<lambda>g. list_ex is_compute_family (queue_families g)
                \<and> set device_layer_names \<subseteq> set (gpu_layers g)
                \<and> set device_extension_names \<subseteq> set (gpu_extensions g)"
  have eq: "GetQueueFamilyIndex (inst, g) \<noteq> -1 \<and> CheckDeviceSupport (inst, g) \<longleftrightarrow> ?P g"
    if "g \<in> set (env_gpus (env s))" for g
    using compute_index_word [of "queue_families g"] assms that
    by (auto simp: GetQueueFamilyIndex_eq CheckDeviceSupport_spec device_extension_names_def)
  have filt: "filter (\<lambda>d. GetQueueFamilyIndex d \<noteq> -1 \<and> CheckDeviceSupport d) (map (Pair inst) gs)
                = map (Pair inst) (filter ?P gs)"
    if "set gs \<subseteq> set (env_gpus (env s))" for gs
    using that by (induction gs) (simp_all add: eq)
  have idx: "GetQueueFamilyIndex (inst, g) =
               word_of_nat (length (takeWhile (\<lambda>p. \<not> is_compute_family p) (queue_families g)))"
    if "g \<in> set (filter ?P (env_gpus (env s)))" for g
    using that by (simp add: GetQueueFamilyIndex_eq)
  show ?thesis
    by (simp add: FindPhysicalDevices_def find_supported_filter vkEnumeratePhysicalDevices_def filt
        vkGetPhysicalDeviceProperties_def idx cong: map_cong)
qed

subsection \<open>Creating and destroying the devices\<close>

lemma device_objects_None: "k < h \<or> h + length ps \<le> k \<Longrightarrow> device_objects ps h k = None"
  by (induction ps arbitrary: h) auto

lemma dom_device_objects: "dom (device_objects ps h) = {h..<h + length ps}"
  by (induction ps arbitrary: h) auto

text \<open>Creating one device: a device object under the physical device's instance, and its queue.\<close>

lemma CreateDevice_ok:
  assumes "responses s = []" and "is_type s (fst (spd_physical_device p)) VK_OBJECT_TYPE_INSTANCE"
    and "queue_family_ok p" and "next_handle s = h"
  shows "CreateDevice p s =
           Inr (device_record p h, s\<lparr>objs := (objs s)(h \<mapsto> device_object p), next_handle := Suc h\<rparr>)"
  using assms
  by (simp add: CreateDevice_def vkCreateDevice_def device_extension_names_def vk_create_ok
      vkGetDeviceQueue_def device_family_def obj_queries device_record_def device_object_def
      queue_family_ok_def)

text \<open>
  The creation loop creates one device per selected physical device, at consecutive fresh
  handles, in order.
\<close>

lemma create_devices_ok:
  assumes "responses s = []"
    and "\<forall>p \<in> set ps. is_type s (fst (spd_physical_device p)) VK_OBJECT_TYPE_INSTANCE \<and> queue_family_ok p"
    and "\<forall>k. next_handle s \<le> k \<longrightarrow> objs s k = None"
  shows "create_devices ps s =
           Inr (device_records ps (next_handle s),
                s\<lparr>objs := objs s ++ device_objects ps (next_handle s),
                  next_handle := next_handle s + length ps\<rparr>)"
  using assms
proof (induction ps arbitrary: s)
  case Nil
  then show ?case by simp
next
  case (Cons p ps)
  let ?h = "next_handle s"
  let ?s1 = "s\<lparr>objs := (objs s)(?h \<mapsto> device_object p), next_handle := Suc ?h\<rparr>"
  have dev: "CreateDevice p s = Inr (device_record p ?h, ?s1)"
    using Cons.prems by (intro CreateDevice_ok) auto
  have fresh: "objs s ?h = None" using Cons.prems(3) by simp
  have inst: "\<forall>q \<in> set ps. is_type ?s1 (fst (spd_physical_device q)) VK_OBJECT_TYPE_INSTANCE \<and> queue_family_ok q"
    using Cons.prems(2) fresh by (auto simp: is_type_def split: option.splits)
  have rest: "create_devices ps ?s1 =
      Inr (device_records ps (Suc ?h),
           ?s1\<lparr>objs := objs ?s1 ++ device_objects ps (Suc ?h), next_handle := Suc ?h + length ps\<rparr>)"
    using Cons.IH [of ?s1] Cons.prems(1,3) inst by (simp add: fun_upd_def)
  have eq: "(objs s)(?h \<mapsto> device_object p) ++ device_objects ps (Suc ?h)
        = objs s ++ device_objects (p # ps) ?h"
  proof -
    have "?h \<notin> dom (device_objects ps (Suc ?h))" by (simp add: dom_device_objects)
    then show ?thesis by (simp add: map_add_upd_left)
  qed
  show ?case using dev rest eq by (simp add: fun_upd_def)
qed

text \<open>
  C10: \<open>DestroyDevices\<close> destroys every device the creation loop made, with no valid-usage
  violation, provided no object created on them is still live.
\<close>

lemma DestroyDevices_ok:
  assumes "\<forall>k. h \<le> k \<and> k < h + length ps \<longrightarrow> is_type s k VK_OBJECT_TYPE_DEVICE"
    and "\<forall>c ob. objs s c = Some ob \<longrightarrow> \<not> (h \<le> oparent ob \<and> oparent ob < h + length ps)"
    and "\<forall>c ob. objs s c = Some ob \<longrightarrow> c < next_handle s"
    and "0 < h"
  shows "DestroyDevices (device_records ps h) s =
           s\<lparr>objs := (\<lambda>c. if h \<le> c \<and> c < h + length ps then None else objs s c)\<rparr>"
  using assms
proof (induction ps arbitrary: h s)
  case Nil
  have "(\<lambda>c. if h \<le> c \<and> c < h then None else objs s c) = objs s" by (rule ext) auto
  then show ?case by simp
next
  case (Cons p ps)
  let ?s1 = "s\<lparr>objs := (objs s)(h := None)\<rparr>"
  have "\<not> (\<exists>c ob. objs s c = Some ob \<and> oparent ob = h)"
  proof
    assume "\<exists>c ob. objs s c = Some ob \<and> oparent ob = h"
    then obtain c ob where "objs s c = Some ob" "oparent ob = h" by blast
    with Cons.prems(2) show False by fastforce
  qed
  then have nochild: "\<not> has_children s h"
    using Cons.prems(3) by (simp add: has_children_iff children_def)
  have step: "vkDestroyDevice h s = ?s1"
    using Cons.prems(1,4) nochild by (simp add: vkDestroyDevice_def vk_destroy_ok VK_NULL_HANDLE_def)
  have "DestroyDevices (device_records ps (Suc h)) ?s1 =
          ?s1\<lparr>objs := (\<lambda>c. if Suc h \<le> c \<and> c < Suc h + length ps then None else objs ?s1 c)\<rparr>"
    using Cons.prems by (intro Cons.IH) (auto simp: is_type_def)
  then show ?case using step by (simp add: device_record_def fun_eq_iff)
qed
lemma queue_family_ok_find_supported:
  assumes "\<forall>d \<in> set ds. length (queue_families (snd d)) < 2 ^ 32" and "p \<in> set (find_supported ds)"
  shows "queue_family_ok p"
proof -
  from assms(2) obtain d where d: "d \<in> set ds" "GetQueueFamilyIndex d \<noteq> -1"
    and p: "p = \<lparr>spd_physical_device = d, spd_queue_index = GetQueueFamilyIndex d,
                 spd_device_properties = vkGetPhysicalDeviceProperties d\<rparr>"
    by (auto simp: find_supported_filter)
  from assms(1) d(1) have len: "length (queue_families (snd d)) < 2 ^ 32" by blast
  moreover from d(2) have ex: "list_ex is_compute_family (queue_families (snd d))"
    by (auto simp: GetQueueFamilyIndex_eq split: if_splits)
  moreover have "is_compute_family (queue_families (snd d) !
                   length (takeWhile (\<lambda>p. \<not> is_compute_family p) (queue_families (snd d))))"
    using compute_index_word [OF ex] nth_length_takeWhile [of "\<lambda>p. \<not> is_compute_family p"] len
    by blast
  ultimately show ?thesis using p compute_index_word [OF ex len]
    by (auto simp: queue_family_ok_def is_compute_family_def unat_gt_0 GetQueueFamilyIndex_eq)
qed

text \<open>
  C9: with at least one physical device, a live instance and every driver call succeeding,
  \<open>CreateDevices\<close> creates one logical device per selected physical device, at
  consecutive fresh handles in the driver's order, each with the queue of its compute family.
\<close>

lemma CreateDevices_ok:
  assumes "responses s = []" and "is_type s inst VK_OBJECT_TYPE_INSTANCE"
    and "env_gpus (env s) \<noteq> []"
    and "\<forall>g \<in> set (env_gpus (env s)). length (queue_families g) < 2 ^ 32"
    and "\<forall>k. next_handle s \<le> k \<longrightarrow> objs s k = None"
  shows "CreateDevices inst s =
           Inr (device_records (find_supported (vkEnumeratePhysicalDevices inst s)) (next_handle s),
                s\<lparr>objs := objs s ++ device_objects (find_supported (vkEnumeratePhysicalDevices inst s)) (next_handle s),
                  next_handle := next_handle s + length (find_supported (vkEnumeratePhysicalDevices inst s))\<rparr>)"
proof -
  let ?ps = "find_supported (vkEnumeratePhysicalDevices inst s)"
  have "\<forall>d \<in> set (vkEnumeratePhysicalDevices inst s). length (queue_families (snd d)) < 2 ^ 32"
    using assms(4) by (auto simp: vkEnumeratePhysicalDevices_def)
  then have "\<forall>p \<in> set ?ps. is_type s (fst (spd_physical_device p)) VK_OBJECT_TYPE_INSTANCE \<and> queue_family_ok p"
    using assms(2) queue_family_ok_find_supported
    by (fastforce simp: find_supported_filter vkEnumeratePhysicalDevices_def)
  with assms(1,5) have "create_devices ?ps s =
      Inr (device_records ?ps (next_handle s),
           s\<lparr>objs := objs s ++ device_objects ?ps (next_handle s), next_handle := next_handle s + length ?ps\<rparr>)"
    by (intro create_devices_ok)
  then show ?thesis
    using assms(3) by (simp add: CreateDevices_def FindPhysicalDevices_def vkEnumeratePhysicalDevices_def)
qed

end
