(* ===== verification/Buffer.thy ===== *)
theory Buffer
  imports Device
begin

unbundle bit_operations_syntax

text \<open>
  \<open>src/Vulkan/VulkanBuffer.h\<close> and \<open>VulkanBuffer.cpp\<close>: a storage buffer with memory of
  the requested property flags bound to it, the memory-type search, and destruction.
\<close>

record VulkanBuffer =
  buffer_size :: u32
  buffer :: handle
  device_memory :: handle

subsection \<open>Memory type search\<close>

text \<open>
  The loop of \<open>GetMemoryType\<close> over the \<open>memoryTypeCount\<close> types:
  \<open>if ((memory_type_bits & (1 << i)) && ((propertyFlags & properties) == properties)) return i;\<close>
\<close>

fun memory_type_loop :: "u32 list \<Rightarrow> u32 \<Rightarrow> u32 \<Rightarrow> nat \<Rightarrow> nat option" where
  "memory_type_loop [] bits props i = None"
| "memory_type_loop (f # fs) bits props i =
     (if type_bit_set bits i \<and> (f AND props) = props then Some i
      else memory_type_loop fs bits props (Suc i))"

text \<open>
  After the loop \<open>assert(0 && ...)\<close> stops the process; the \<open>return -1\<close> that follows is
  reached only in a build without assertions.
\<close>

definition GetMemoryType :: "vk_physical_device \<Rightarrow> u32 \<Rightarrow> u32 \<Rightarrow> abort + u32" where
  "GetMemoryType pd memory_type_bits properties =
     (case memory_type_loop (vkGetPhysicalDeviceMemoryProperties pd) memory_type_bits properties 0 of
        Some i \<Rightarrow> Inr (word_of_nat i)
      | None \<Rightarrow> Inl (AssertFail ''Memory properties are not supported by this device''))"

text \<open>The condition the loop tests at index \<open>k\<close>, on the whole list of memory types.\<close>

definition mem_type_ok :: "u32 list \<Rightarrow> u32 \<Rightarrow> u32 \<Rightarrow> nat \<Rightarrow> bool" where
  "mem_type_ok fs bits props k = (type_bit_set bits k \<and> (fs ! k AND props) = props)"

subsection \<open>Creation and destruction\<close>

definition CreateBuffer :: "SupportedDevice \<Rightarrow> u32 \<Rightarrow> u32 \<Rightarrow> vkstate \<Rightarrow> VulkanBuffer run" where
  "CreateBuffer sd bsize memory_properties s =
     (let ((result, buf), s1) = vkCreateBuffer (device sd) (unat bsize) s in
      if result \<noteq> VK_SUCCESS then Inl (AssertFail ''Could not create buffer'')
      else (let (req_size, req_bits) = vkGetBufferMemoryRequirements (device sd) buf s1 in
            case GetMemoryType (physical_device sd) req_bits memory_properties of
              Inl e \<Rightarrow> Inl e
            | Inr ty \<Rightarrow>
                (let ((result, mem), s2) = vkAllocateMemory (device sd) req_size (unat ty) s1 in
                 if result \<noteq> VK_SUCCESS then Inl (AssertFail ''Could not allocate memory on device'')
                 else (let (result, s3) = vkBindBufferMemory (device sd) buf mem 0 s2 in
                       if result \<noteq> VK_SUCCESS
                       then Inl (AssertFail ''Could not bind memory handle with allocated memory'')
                       else Inr (\<lparr>buffer_size = bsize, buffer = buf, device_memory = mem\<rparr>, s3)))))"

definition DestroyBuffer :: "SupportedDevice \<Rightarrow> VulkanBuffer \<Rightarrow> vkstate \<Rightarrow> vkstate" where
  "DestroyBuffer sd vb s =
     vkDestroyBuffer (device sd) (buffer vb) (vkFreeMemory (device sd) (device_memory vb) s)"

subsection \<open>The memory type search\<close>

lemma memory_type_loop_shift:
  "memory_type_loop fs bits props i = Some j \<longleftrightarrow>
     (\<exists>d. j = i + d \<and> d < length fs \<and> type_bit_set bits (i + d) \<and> (fs ! d AND props) = props
          \<and> (\<forall>e < d. \<not> (type_bit_set bits (i + e) \<and> (fs ! e AND props) = props)))"
proof (induction fs arbitrary: i)
  case Nil
  then show ?case by simp
next
  case (Cons f fs)
  show ?case
  proof (cases "type_bit_set bits i \<and> (f AND props) = props")
    case True
    show ?thesis
    proof
      assume "memory_type_loop (f # fs) bits props i = Some j"
      with True have "j = i" by simp
      with True show "\<exists>d. j = i + d \<and> d < length (f # fs) \<and> type_bit_set bits (i + d) \<and> ((f # fs) ! d AND props) = props
           \<and> (\<forall>e < d. \<not> (type_bit_set bits (i + e) \<and> ((f # fs) ! e AND props) = props))"
        by (intro exI [of _ 0]) auto
    next
      assume "\<exists>d. j = i + d \<and> d < length (f # fs) \<and> type_bit_set bits (i + d) \<and> ((f # fs) ! d AND props) = props
           \<and> (\<forall>e < d. \<not> (type_bit_set bits (i + e) \<and> ((f # fs) ! e AND props) = props))"
      then obtain d where d: "j = i + d"
        and none: "\<forall>e < d. \<not> (type_bit_set bits (i + e) \<and> ((f # fs) ! e AND props) = props)" by blast
      have "d = 0"
      proof (rule ccontr)
        assume "d \<noteq> 0"
        with none have "\<not> (type_bit_set bits (i + 0) \<and> ((f # fs) ! 0 AND props) = props)" by blast
        with True show False by simp
      qed
      with d True show "memory_type_loop (f # fs) bits props i = Some j" by simp
    qed
  next
    case False
    have "memory_type_loop (f # fs) bits props i = memory_type_loop fs bits props (Suc i)"
      using False by (simp only: memory_type_loop.simps if_False)
    also have "\<dots> = Some j \<longleftrightarrow>
      (\<exists>d. j = Suc i + d \<and> d < length fs \<and> type_bit_set bits (Suc i + d) \<and> (fs ! d AND props) = props
           \<and> (\<forall>e < d. \<not> (type_bit_set bits (Suc i + e) \<and> (fs ! e AND props) = props)))"
      by (rule Cons.IH)
    also have "\<dots> \<longleftrightarrow>
      (\<exists>d. j = i + d \<and> d < length (f # fs) \<and> type_bit_set bits (i + d) \<and> ((f # fs) ! d AND props) = props
           \<and> (\<forall>e < d. \<not> (type_bit_set bits (i + e) \<and> ((f # fs) ! e AND props) = props)))"
    proof
      assume "\<exists>d. j = Suc i + d \<and> d < length fs \<and> type_bit_set bits (Suc i + d) \<and> (fs ! d AND props) = props
           \<and> (\<forall>e < d. \<not> (type_bit_set bits (Suc i + e) \<and> (fs ! e AND props) = props))"
      then obtain d where d: "j = Suc i + d" "d < length fs" "type_bit_set bits (Suc i + d)" "(fs ! d AND props) = props"
        and none: "\<forall>e < d. \<not> (type_bit_set bits (Suc i + e) \<and> (fs ! e AND props) = props)" by blast
      have "\<forall>e < Suc d. \<not> (type_bit_set bits (i + e) \<and> ((f # fs) ! e AND props) = props)"
      proof (intro allI impI)
        fix e assume "e < Suc d"
        then show "\<not> (type_bit_set bits (i + e) \<and> ((f # fs) ! e AND props) = props)"
          using False none by (cases e) auto
      qed
      with d show "\<exists>d. j = i + d \<and> d < length (f # fs) \<and> type_bit_set bits (i + d) \<and> ((f # fs) ! d AND props) = props
           \<and> (\<forall>e < d. \<not> (type_bit_set bits (i + e) \<and> ((f # fs) ! e AND props) = props))"
        by (intro exI [of _ "Suc d"]) auto
    next
      assume "\<exists>d. j = i + d \<and> d < length (f # fs) \<and> type_bit_set bits (i + d) \<and> ((f # fs) ! d AND props) = props
           \<and> (\<forall>e < d. \<not> (type_bit_set bits (i + e) \<and> ((f # fs) ! e AND props) = props))"
      then obtain d where d: "j = i + d" "d < length (f # fs)" "type_bit_set bits (i + d)" "((f # fs) ! d AND props) = props"
        and none: "\<forall>e < d. \<not> (type_bit_set bits (i + e) \<and> ((f # fs) ! e AND props) = props)" by blast
      from d False obtain d' where d': "d = Suc d'" by (cases d) auto
      have "\<forall>e < d'. \<not> (type_bit_set bits (Suc i + e) \<and> (fs ! e AND props) = props)"
        using none d' by force
      with d d' show "\<exists>d. j = Suc i + d \<and> d < length fs \<and> type_bit_set bits (Suc i + d) \<and> (fs ! d AND props) = props
           \<and> (\<forall>e < d. \<not> (type_bit_set bits (Suc i + e) \<and> (fs ! e AND props) = props))"
        by (intro exI [of _ d']) auto
    qed
    finally show ?thesis .
  qed
qed

text \<open>
  C11: \<open>GetMemoryType\<close> returns exactly the first memory type whose bit is set in the
  buffer's \<open>memoryTypeBits\<close> and whose property flags include all requested ones
  (for the at most 32 types Vulkan allows) ...
\<close>

lemma GetMemoryType_spec:
  assumes "length (memory_type_flags (snd pd)) \<le> 32"
  shows "GetMemoryType pd bits props = Inr t \<longleftrightarrow>
           unat t < length (memory_type_flags (snd pd))
           \<and> mem_type_ok (memory_type_flags (snd pd)) bits props (unat t)
           \<and> (\<forall>k < unat t. \<not> mem_type_ok (memory_type_flags (snd pd)) bits props k)"
proof
  assume "GetMemoryType pd bits props = Inr t"
  then obtain j where j: "memory_type_loop (memory_type_flags (snd pd)) bits props 0 = Some j"
    and t: "t = word_of_nat j"
    by (auto simp: GetMemoryType_def vkGetPhysicalDeviceMemoryProperties_def split: option.splits)
  from j have "j < length (memory_type_flags (snd pd))" by (auto simp: memory_type_loop_shift)
  with assms t have "unat t = j" by simp
  with j show "unat t < length (memory_type_flags (snd pd))
           \<and> mem_type_ok (memory_type_flags (snd pd)) bits props (unat t)
           \<and> (\<forall>k < unat t. \<not> mem_type_ok (memory_type_flags (snd pd)) bits props k)"
    by (auto simp: memory_type_loop_shift mem_type_ok_def)
next
  assume a: "unat t < length (memory_type_flags (snd pd))
           \<and> mem_type_ok (memory_type_flags (snd pd)) bits props (unat t)
           \<and> (\<forall>k < unat t. \<not> mem_type_ok (memory_type_flags (snd pd)) bits props k)"
  then have "memory_type_loop (memory_type_flags (snd pd)) bits props 0 = Some (unat t)"
    by (auto simp: memory_type_loop_shift mem_type_ok_def)
  then show "GetMemoryType pd bits props = Inr t"
    by (simp add: GetMemoryType_def vkGetPhysicalDeviceMemoryProperties_def)
qed

text \<open>... and stops at its assertion exactly when there is no such type.\<close>

lemma GetMemoryType_none:
  "GetMemoryType pd bits props = Inl (AssertFail ''Memory properties are not supported by this device'')
   \<longleftrightarrow> (\<forall>k < length (memory_type_flags (snd pd)). \<not> mem_type_ok (memory_type_flags (snd pd)) bits props k)"
proof -
  have "memory_type_loop (memory_type_flags (snd pd)) bits props 0 = None \<longleftrightarrow>
        (\<forall>k < length (memory_type_flags (snd pd)). \<not> mem_type_ok (memory_type_flags (snd pd)) bits props k)"
  proof
    assume n: "memory_type_loop (memory_type_flags (snd pd)) bits props 0 = None"
    show "\<forall>k < length (memory_type_flags (snd pd)). \<not> mem_type_ok (memory_type_flags (snd pd)) bits props k"
    proof (intro allI impI notI)
      fix k assume k: "k < length (memory_type_flags (snd pd))" and ok: "mem_type_ok (memory_type_flags (snd pd)) bits props k"
      define m where "m = (LEAST m. m < length (memory_type_flags (snd pd)) \<and> mem_type_ok (memory_type_flags (snd pd)) bits props m)"
      have m: "m < length (memory_type_flags (snd pd)) \<and> mem_type_ok (memory_type_flags (snd pd)) bits props m"
        unfolding m_def by (rule LeastI [where k = k]) (simp add: k ok)
      have "\<forall>e < m. \<not> mem_type_ok (memory_type_flags (snd pd)) bits props e"
        unfolding m_def using m m_def not_less_Least order.strict_trans by blast
      with m have "memory_type_loop (memory_type_flags (snd pd)) bits props 0 = Some m"
        by (auto simp: memory_type_loop_shift mem_type_ok_def)
      with n show False by simp
    qed
  next
    assume "\<forall>k < length (memory_type_flags (snd pd)). \<not> mem_type_ok (memory_type_flags (snd pd)) bits props k"
    then show "memory_type_loop (memory_type_flags (snd pd)) bits props 0 = None"
      by (cases "memory_type_loop (memory_type_flags (snd pd)) bits props 0")
         (auto simp: memory_type_loop_shift mem_type_ok_def)
  qed
  then show ?thesis
    by (auto simp: GetMemoryType_def vkGetPhysicalDeviceMemoryProperties_def split: option.splits)
qed
subsection \<open>Creating and destroying the buffer\<close>

text \<open>
  C12: with every driver call succeeding and a suitable memory type, \<open>CreateBuffer\<close>
  creates a buffer of the requested size and a memory allocation of the same size on the
  device, binds the memory to the buffer, and changes nothing else.
\<close>

lemma CreateBuffer_ok:
  assumes "responses s = []"
    and "objs s (device sd) = Some \<lparr>oparent = inst, oinfo = IDevice g f\<rparr>"
    and "snd (physical_device sd) = g" and "length (memory_type_flags g) \<le> 32"
    and "GetMemoryType (physical_device sd) (storage_buffer_type_bits g) props = Inr ty"
    and "0 < unat bsize"
    and "next_handle s = h" and "objs s h = None" and "objs s (Suc h) = None"
  shows "CreateBuffer sd bsize props s =
    Inr (\<lparr>buffer_size = bsize, buffer = h, device_memory = Suc h\<rparr>,
         s\<lparr>objs := (objs s)(h \<mapsto> \<lparr>oparent = device sd, oinfo = IBuffer (unat bsize) (Some (Suc h))\<rparr>,
                           Suc h \<mapsto> \<lparr>oparent = device sd, oinfo = IDeviceMemory (unat bsize) (unat ty) False\<rparr>),
           next_handle := Suc (Suc h)\<rparr>)"
proof -
  have dh: "device sd \<noteq> h" "device sd \<noteq> Suc h" using assms(2,8,9) by auto
  have ty: "unat ty < length (memory_type_flags g)" "type_bit_set (storage_buffer_type_bits g) (unat ty)"
    using assms(3,4,5) GetMemoryType_spec [of "physical_device sd"] by (auto simp: mem_type_ok_def)
  show ?thesis
    using assms dh ty
    by (simp add: CreateBuffer_def vkCreateBuffer_def vk_create_ok obj_queries
       vkGetBufferMemoryRequirements_def device_gpu_def vkAllocateMemory_def vkBindBufferMemory_def
       set_info_def Let_def fun_upd_twist)
qed

text \<open>With no work pending, \<open>DestroyBuffer\<close> frees the memory and then destroys the buffer.\<close>

lemma DestroyBuffer_ok:
  assumes "submitted s = []"
    and "owned_by s (buffer vb) (device sd) VK_OBJECT_TYPE_BUFFER"
    and "owned_by s (device_memory vb) (device sd) VK_OBJECT_TYPE_DEVICE_MEMORY"
    and "buffer vb \<noteq> VK_NULL_HANDLE" and "device_memory vb \<noteq> VK_NULL_HANDLE"
  shows "DestroyBuffer sd vb s = s\<lparr>objs := (objs s)(device_memory vb := None, buffer vb := None)\<rparr>"
proof -
  have "buffer vb \<noteq> device_memory vb" using assms(2,3) by (auto simp: owned_by_def split: option.splits)
  then show ?thesis
    using assms by (simp add: DestroyBuffer_def vkFreeMemory_def vkDestroyBuffer_def vk_destroy_ok owned_by_def)
qed
end
