(* ===== verification/Descriptor.thy ===== *)
theory Descriptor
  imports Buffer
begin

text \<open>
  \<open>src/Vulkan/VulkanDescriptor.h\<close> and \<open>VulkanDescriptor.cpp\<close>: a descriptor set layout
  with one binding, a pool for one set, the set, and the write of the buffer into binding 0.
\<close>

text \<open>
  \<open>attached_buffer\<close> is \<open>&vulkan_buffer\<close>, the address of \<open>CreateDescriptorSet\<close>'s
  by-value parameter. The model records which object it points to; the object's lifetime ends
  when \<open>CreateDescriptorSet\<close> returns, so the pointer dangles from then on.
\<close>

datatype 'a param_ptr = AddressOfParameter 'a

record VulkanDescriptor =
  attached_buffer :: "VulkanBuffer param_ptr"
  descriptor_layout :: handle
  descriptor_pool :: handle
  descriptor_set :: handle

definition CreateDescriptorSet :: "SupportedDevice \<Rightarrow> VulkanBuffer \<Rightarrow> vk_descriptor_type \<Rightarrow> vkstate \<Rightarrow> VulkanDescriptor run" where
  "CreateDescriptorSet sd vulkan_buffer descriptor_type s =
     (let ((result, layout), s1) = vkCreateDescriptorSetLayout (device sd) descriptor_type s in
      if result \<noteq> VK_SUCCESS then Inl (AssertFail ''Could not create vulkan descriptor set layout'')
      else (let ((result, pool), s2) = vkCreateDescriptorPool (device sd) 1 s1 in
            if result \<noteq> VK_SUCCESS then Inl (AssertFail ''Could not create descriptor pool'')
            else (let ((result, ds), s3) = vkAllocateDescriptorSets (device sd) pool layout s2 in
                  if result \<noteq> VK_SUCCESS then Inl (AssertFail ''Could not create vulkan descriptor sets'')
                  else (let s4 = vkUpdateDescriptorSets (device sd) ds 0 descriptor_type
                                   (buffer vulkan_buffer) 0 (unat (buffer_size vulkan_buffer)) s3
                        in Inr (\<lparr>attached_buffer = AddressOfParameter vulkan_buffer,
                                 descriptor_layout = layout, descriptor_pool = pool,
                                 descriptor_set = ds\<rparr>, s4)))))"

definition DestroyDescriptorSet :: "SupportedDevice \<Rightarrow> VulkanDescriptor \<Rightarrow> vkstate \<Rightarrow> vkstate" where
  "DestroyDescriptorSet sd d s =
     vkDestroyDescriptorSetLayout (device sd) (descriptor_layout d)
       (vkDestroyDescriptorPool (device sd) (descriptor_pool d) s)"

subsection \<open>Creation and destruction\<close>

text \<open>
  C0: with a driver that accepts every call, a device and a non-empty buffer of it,
  \<open>CreateDescriptorSet\<close> creates a set layout of the requested type, a pool for one set
  (which the allocation then exhausts) and a set from that pool whose binding 0 is the whole
  buffer, at the next three handles, without a valid-usage violation.
\<close>

lemma CreateDescriptorSet_ok:
  assumes "responses s = []" and "submitted s = []"
    and "objs s (device sd) = Some \<lparr>oparent = pd, oinfo = IDevice g fam\<rparr>"
    and "objs s (buffer vb) = Some \<lparr>oparent = device sd, oinfo = IBuffer (unat (buffer_size vb)) m\<rparr>"
    and "0 < unat (buffer_size vb)"
    and "next_handle s = h" and "objs s h = None" and "objs s (Suc h) = None"
    and "objs s (Suc (Suc h)) = None"
  shows "CreateDescriptorSet sd vb ty s =
           Inr (\<lparr>attached_buffer = AddressOfParameter vb, descriptor_layout = h,
                 descriptor_pool = Suc h, descriptor_set = Suc (Suc h)\<rparr>,
                s\<lparr>objs := (objs s)(h \<mapsto> \<lparr>oparent = device sd, oinfo = IDescriptorSetLayout ty\<rparr>,
                                   Suc h \<mapsto> \<lparr>oparent = device sd, oinfo = IDescriptorPool 0\<rparr>,
                                   Suc (Suc h) \<mapsto> \<lparr>oparent = Suc h,
                                     oinfo = IDescriptorSet h (Some (buffer vb, unat (buffer_size vb)))\<rparr>),
                   next_handle := Suc (Suc (Suc h))\<rparr>)"
proof -
  have "device sd \<noteq> h" "device sd \<noteq> Suc h" "buffer vb \<noteq> h" "buffer vb \<noteq> Suc h"
    "buffer vb \<noteq> Suc (Suc h)"
    using assms(3,4,7,8,9) by auto
  then show ?thesis
    using assms(1-6)
    by (simp add: CreateDescriptorSet_def vkCreateDescriptorSetLayout_def vkCreateDescriptorPool_def
        vkAllocateDescriptorSets_def vkUpdateDescriptorSets_def vk_create_ok set_info_def obj_queries
        fun_upd_twist)
qed

text \<open>
  Destroying the pool frees the set allocated from it; the layout goes last. When the set is
  the pool's only child, exactly the three objects disappear.
\<close>

lemma DestroyDescriptorSet_ok:
  assumes "submitted s = []"
    and "owned_by s (descriptor_layout d) (device sd) VK_OBJECT_TYPE_DESCRIPTOR_SET_LAYOUT"
    and "owned_by s (descriptor_pool d) (device sd) VK_OBJECT_TYPE_DESCRIPTOR_POOL"
    and "owned_by s (descriptor_set d) (descriptor_pool d) VK_OBJECT_TYPE_DESCRIPTOR_SET"
    and "children (objs s) (descriptor_pool d) = {descriptor_set d}"
    and "descriptor_layout d \<noteq> VK_NULL_HANDLE" and "descriptor_pool d \<noteq> VK_NULL_HANDLE"
  shows "DestroyDescriptorSet sd d s =
           s\<lparr>objs := (objs s)(descriptor_set d := None, descriptor_pool d := None,
                              descriptor_layout d := None)\<rparr>"
proof -
  have ne: "descriptor_layout d \<noteq> descriptor_pool d"
    using assms(2,3) by (auto simp: owned_by_def split: option.splits)
  have "descriptor_layout d \<noteq> descriptor_set d"
    using assms(2,4) by (auto simp: owned_by_def split: option.splits)
  moreover have "remove_with_children (descriptor_pool d) s =
      s\<lparr>objs := (objs s)(descriptor_set d := None, descriptor_pool d := None)\<rparr>"
    using assms(5) by (rule remove_with_children_single)
  ultimately show ?thesis
    using ne assms(1,2,3,6,7)
    by (simp add: DestroyDescriptorSet_def vkDestroyDescriptorPool_def vkDestroyDescriptorSetLayout_def
        vk_destroy_pool_ok vk_destroy_ok owned_by_def)
qed

end
