(* ===== verification/Pipeline.thy ===== *)
theory Pipeline
  imports Descriptor
begin

unbundle bit_operations_syntax

text \<open>
  \<open>src/Vulkan/VulkanPipeline.h\<close> and \<open>VulkanPipeline.cpp\<close>: reading the SPIR-V file and
  padding it to whole 32-bit words, the shader module, the pipeline layout over the
  descriptor set layout, the compute pipeline, and destruction. The file system is the
  driver environment's map from paths to contents; \<open>fopen\<close> failing is the path missing.
\<close>

record VulkanPipeline =
  shader_module :: handle
  pipeline_layout :: handle
  pipeline :: handle

subsection \<open>Reading the shader file\<close>

text \<open>
  The \<open>char\<close> buffer that \<open>ReadShaderFile\<close> returns is read by Vulkan as \<open>uint32_t\<close>
  words, little-endian on the targets the program runs on.
\<close>

fun le_words :: "u8 list \<Rightarrow> u32 list" where
  "le_words (b0 # b1 # b2 # b3 # bs) =
     (ucast b0 OR push_bit 8 (ucast b1) OR push_bit 16 (ucast b2) OR push_bit 24 (ucast b3)) # le_words bs"
| "le_words _ = []"

fun le_bytes :: "u32 list \<Rightarrow> u8 list" where
  "le_bytes [] = []"
| "le_bytes (w # ws) =
     ucast w # ucast (drop_bit 8 w) # ucast (drop_bit 16 w) # ucast (drop_bit 24 w) # le_bytes ws"

text \<open>
  \<open>filesizepadded = long(ceil(filesize / 4.0)) * 4\<close> (the double quotient is exact for
  every file size below \<open>2^53\<close>); the bytes past the file are zeroed, and the length
  is stored into the \<open>uint32_t&\<close> out-parameter.
\<close>

definition padded_size :: "nat \<Rightarrow> nat" where
  "padded_size filesize = nat \<lceil>real filesize / 4\<rceil> * 4"

definition ReadShaderFile :: "string \<Rightarrow> vkstate \<Rightarrow> (u32 \<times> u32 list) run" where
  "ReadShaderFile filename s =
     (case env_files (env s) filename of
        None \<Rightarrow> Inl (AssertFail ''Could not find or open shader file'')
      | Some contents \<Rightarrow>
          (let filesize = length contents;
               filesizepadded = padded_size filesize;
               str = contents @ replicate (filesizepadded - filesize) 0
           in Inr ((word_of_nat filesizepadded, le_words str), s)))"

subsection \<open>Creation and destruction\<close>

definition CreatePipeline :: "SupportedDevice \<Rightarrow> VulkanDescriptor \<Rightarrow> string \<Rightarrow> vkstate \<Rightarrow> VulkanPipeline run" where
  "CreatePipeline sd descriptor shader_path s =
     bindR (ReadShaderFile shader_path s) (\<lambda>(file_length, code) s1.
       (let ((result, compute_shader_module), s2) = vkCreateShaderModule (device sd) (unat file_length) code s1 in
        if result \<noteq> VK_SUCCESS then Inl (AssertFail ''Could not create shader module'')
        else (let ((result, layout), s3) = vkCreatePipelineLayout (device sd) [descriptor_layout descriptor] s2 in
              if result \<noteq> VK_SUCCESS then Inl (AssertFail ''Could not create pipeline layout'')
              else (let ((result, p), s4) = vkCreateComputePipelines (device sd) compute_shader_module layout s3 in
                    if result \<noteq> VK_SUCCESS then Inl (AssertFail ''Could not create vulkan pipeline'')
                    else Inr (\<lparr>shader_module = compute_shader_module, pipeline_layout = layout,
                               pipeline = p\<rparr>, s4)))))"

definition DestroyPipeline :: "SupportedDevice \<Rightarrow> VulkanPipeline \<Rightarrow> vkstate \<Rightarrow> vkstate" where
  "DestroyPipeline sd p s =
     vkDestroyPipeline (device sd) (pipeline p)
       (vkDestroyPipelineLayout (device sd) (pipeline_layout p)
         (vkDestroyShaderModule (device sd) (shader_module p) s))"

text \<open>
  A shader file the program can load: shorter than \<open>2^32 - 3\<close> bytes, so that the padded
  size fits the \<open>uint32_t\<close> length, and starting with the little-endian SPIR-V magic number.
\<close>

definition spirv_ok :: "u8 list \<Rightarrow> bool" where
  "spirv_ok bs = (length bs < 2 ^ 32 - 3 \<and> take 4 bs = [0x03, 0x02, 0x23, 0x07])"

subsection \<open>Padding and byte order\<close>

lemma padded_size_eq: "padded_size n = (n + 3) div 4 * 4"
  using ceiling_divide_nat [of 4 n] by (simp add: padded_size_def)

lemma padded_size_bounds:
  "padded_size n mod 4 = 0 \<and> n \<le> padded_size n \<and> padded_size n < n + 4"
  by (simp add: padded_size_eq) linarith

lemma le_word_bytes:
  fixes b0 b1 b2 b3 :: u8
  defines "w \<equiv> (ucast b0 OR push_bit 8 (ucast b1) OR push_bit 16 (ucast b2) OR push_bit 24 (ucast b3) :: u32)"
  shows "ucast w = b0 \<and> ucast (drop_bit 8 w) = b1 \<and> ucast (drop_bit 16 w) = b2 \<and> ucast (drop_bit 24 w) = b3"
  unfolding w_def
  by (intro conjI; rule bit_word_eqI; auto simp: bit_simps dest: bit_imp_le_length)

lemma le_bytes_le_words:
  "length bs mod 4 = 0 \<Longrightarrow> le_bytes (le_words bs) = bs"
proof (induction bs rule: le_words.induct)
  case (1 b0 b1 b2 b3 bs)
  from le_word_bytes [of b0 b1 b2 b3] 1 show ?case
    by (simp only: le_words.simps le_bytes.simps list.inject) simp
qed auto

lemma length_le_words: "length (le_words bs) = length bs div 4"
  by (induction bs rule: le_words.induct) auto

lemma le_words_le_bytes: "le_words (le_bytes ws) = ws"
proof (induction ws)
  case Nil
  then show ?case by simp
next
  case (Cons w ws)
  have "(ucast (ucast w :: u8) OR push_bit 8 (ucast (ucast (drop_bit 8 w) :: u8))
         OR push_bit 16 (ucast (ucast (drop_bit 16 w) :: u8))
         OR push_bit 24 (ucast (ucast (drop_bit 24 w) :: u8)) :: u32) = w"
    by (rule bit_word_eqI) (auto simp: bit_simps; case_tac "n < 24"; simp)
  with Cons show ?case by simp
qed

subsection \<open>Reading the file and creating the pipeline\<close>

lemma ReadShaderFile_eq:
  "env_files (env s) f = Some bs \<Longrightarrow>
   ReadShaderFile f s =
     Inr ((word_of_nat (padded_size (length bs)),
           le_words (bs @ replicate (padded_size (length bs) - length bs) 0)), s)"
  by (simp add: ReadShaderFile_def Let_def)

lemma padded_size_less: "n < 2 ^ 32 - 3 \<Longrightarrow> padded_size n < 2 ^ 32"
  using padded_size_bounds [of n] by linarith

lemma le_words_magic:
  "take 4 bs = [0x03, 0x02, 0x23, 0x07] \<Longrightarrow> \<exists>ws. le_words (bs @ pad) = SPIRV_MAGIC # ws"
proof -
  assume "take 4 bs = [0x03, 0x02, 0x23, 0x07]"
  then obtain rest where "bs = [0x03, 0x02, 0x23, 0x07] @ rest"
    by (metis append_take_drop_id)
  then show ?thesis by (simp add: SPIRV_MAGIC_def)
qed

text \<open>
  C0: for a file shorter than \<open>2^32 - 3\<close> bytes, \<open>ReadShaderFile\<close> returns a length
  that is the file size rounded up to a multiple of four (at most three bytes more), and a
  word buffer of exactly that many bytes which holds the file's bytes in order followed by
  zeros: the length and the code that \<open>CreatePipeline\<close> passes to
  \<open>vkCreateShaderModule\<close> agree.
\<close>

lemma ReadShaderFile_spec:
  assumes "env_files (env s) f = Some bs" and "length bs < 2 ^ 32 - 3"
  shows "\<exists>len code. ReadShaderFile f s = Inr ((len, code), s)
           \<and> unat len mod 4 = 0 \<and> length bs \<le> unat len \<and> unat len < length bs + 4
           \<and> length code = unat len div 4
           \<and> le_bytes code = bs @ replicate (unat len - length bs) 0"
proof -
  let ?p = "padded_size (length bs)"
  have p: "?p mod 4 = 0" "length bs \<le> ?p" "?p < length bs + 4"
    using padded_size_bounds [of "length bs"] by auto
  have "?p < 2 ^ 32" using assms(2) by (rule padded_size_less)
  with p show ?thesis using assms(1)
    by (simp add: ReadShaderFile_eq length_le_words le_bytes_le_words)
qed

text \<open>
  C0: with a driver that accepts every call, a device, a descriptor set layout of it and a
  shader file that starts with the SPIR-V magic number, \<open>CreatePipeline\<close> creates the
  shader module, the pipeline layout over that one set layout and the compute pipeline at the
  next three handles, all owned by the device, without a valid-usage violation.
\<close>

lemma CreatePipeline_ok:
  assumes "responses s = []"
    and "objs s (device sd) = Some \<lparr>oparent = pd, oinfo = IDevice g fam\<rparr>"
    and "objs s (descriptor_layout dsc) = Some \<lparr>oparent = device sd, oinfo = IDescriptorSetLayout ty\<rparr>"
    and "env_files (env s) path = Some bs" and "spirv_ok bs"
    and "next_handle s = h" and "objs s h = None" and "objs s (Suc h) = None"
  shows "CreatePipeline sd dsc path s =
           Inr (\<lparr>shader_module = h, pipeline_layout = Suc h, pipeline = Suc (Suc h)\<rparr>,
                s\<lparr>objs := (objs s)(h \<mapsto> \<lparr>oparent = device sd, oinfo = IShaderModule\<rparr>,
                                   Suc h \<mapsto> \<lparr>oparent = device sd, oinfo = IPipelineLayout [descriptor_layout dsc]\<rparr>,
                                   Suc (Suc h) \<mapsto> \<lparr>oparent = device sd, oinfo = IPipeline (Suc h)\<rparr>),
                   next_handle := Suc (Suc (Suc h))\<rparr>)"
proof -
  let ?p = "padded_size (length bs)"
  let ?code = "le_words (bs @ replicate (?p - length bs) 0)"
  have len: "length bs < 2 ^ 32 - 3" and hd: "take 4 bs = [0x03, 0x02, 0x23, 0x07]"
    using assms(5) by (auto simp: spirv_ok_def)
  have "length (take 4 bs) = 4" using hd by simp
  then have "length bs \<ge> 4" by simp
  have pz: "0 < ?p" "?p mod 4 = 0" "?p div 4 = length ?code" "?p < 2 ^ 32"
    using padded_size_bounds [of "length bs"] padded_size_less [OF len] \<open>length bs \<ge> 4\<close>
    by (auto simp: length_le_words)
  obtain ws where code: "?code = SPIRV_MAGIC # ws" using le_words_magic [OF hd] by blast
  have dev: "device sd \<noteq> h" "device sd \<noteq> Suc h" "descriptor_layout dsc \<noteq> h"
    using assms(2,3,7,8) by auto
  show ?thesis
    using assms(1,2,3,4,6) pz code dev
    by (simp add: CreatePipeline_def ReadShaderFile_eq vkCreateShaderModule_def vkCreatePipelineLayout_def
        vkCreateComputePipelines_def vk_create_ok obj_queries)
qed

lemma DestroyPipeline_ok:
  assumes "submitted s = []"
    and "owned_by s (shader_module p) (device sd) VK_OBJECT_TYPE_SHADER_MODULE"
    and "owned_by s (pipeline_layout p) (device sd) VK_OBJECT_TYPE_PIPELINE_LAYOUT"
    and "owned_by s (pipeline p) (device sd) VK_OBJECT_TYPE_PIPELINE"
    and "shader_module p \<noteq> VK_NULL_HANDLE" and "pipeline_layout p \<noteq> VK_NULL_HANDLE"
    and "pipeline p \<noteq> VK_NULL_HANDLE"
  shows "DestroyPipeline sd p s =
           s\<lparr>objs := (objs s)(shader_module p := None, pipeline_layout p := None, pipeline p := None)\<rparr>"
proof -
  have "shader_module p \<noteq> pipeline_layout p" "shader_module p \<noteq> pipeline p"
    "pipeline_layout p \<noteq> pipeline p"
    using assms(2,3,4) by (auto simp: owned_by_def split: option.splits)
  then show ?thesis using assms
    by (simp add: DestroyPipeline_def vkDestroyShaderModule_def vkDestroyPipelineLayout_def
        vkDestroyPipeline_def vk_destroy_ok owned_by_def)
qed

end
