(* ===== verification/Commands.thy ===== *)
theory Commands
  imports Pipeline
begin

text \<open>
  \<open>src/Vulkan/VulkanCommandBuffer.{h,cpp}\<close>, \<open>VulkanFence.{h,cpp}\<close> and
  \<open>VulkanSubmit.h\<close>: a command pool and one primary command buffer recording the bind of
  the pipeline and the descriptor set and one dispatch, a fence, and the submission.
\<close>

record VulkanCommandBuffer =
  command_pool :: handle
  command_buffer :: handle

definition CreateCommandBuffer ::
  "SupportedDevice \<Rightarrow> VulkanPipeline \<Rightarrow> VulkanDescriptor \<Rightarrow> u32 \<Rightarrow> u32 \<Rightarrow> u32 \<Rightarrow> vkstate \<Rightarrow> VulkanCommandBuffer run" where
  "CreateCommandBuffer sd p descriptor work_group_x work_group_y work_group_z s =
     (let ((result, pool), s1) = vkCreateCommandPool (device sd) (unat (queue_index sd)) s in
      if result \<noteq> VK_SUCCESS then Inl (AssertFail ''Could not create command pool'')
      else (let ((result, cb), s2) = vkAllocateCommandBuffers (device sd) pool s1 in
            if result \<noteq> VK_SUCCESS then Inl (AssertFail ''Could not allocate command buffers'')
            else (let (result, s3) = vkBeginCommandBuffer cb s2 in
                  if result \<noteq> VK_SUCCESS then Inl (AssertFail ''Could not begin command buffer'')
                  else (let s4 = vkCmdBindPipeline cb (pipeline p) s3;
                            s5 = vkCmdBindDescriptorSets cb (pipeline_layout p) (descriptor_set descriptor) s4;
                            s6 = vkCmdDispatch cb work_group_x work_group_y work_group_z s5;
                            (result, s7) = vkEndCommandBuffer cb s6
                        in if result \<noteq> VK_SUCCESS then Inl (AssertFail ''Could not end command buffer'')
                           else Inr (\<lparr>command_pool = pool, command_buffer = cb\<rparr>, s7)))))"

definition DestroyCommandBuffer :: "SupportedDevice \<Rightarrow> VulkanCommandBuffer \<Rightarrow> vkstate \<Rightarrow> vkstate" where
  "DestroyCommandBuffer sd c s =
     vkDestroyCommandPool (device sd) (command_pool c)
       (vkFreeCommandBuffers (device sd) (command_pool c) (command_buffer c) s)"

definition CreateFence :: "SupportedDevice \<Rightarrow> vkstate \<Rightarrow> handle run" where
  "CreateFence sd s =
     (let ((result, fence), s1) = vkCreateFence (device sd) s in
      if result \<noteq> VK_SUCCESS then Inl (AssertFail ''result == VK_SUCCESS'') else Inr (fence, s1))"

definition DestroyFence :: "SupportedDevice \<Rightarrow> handle \<Rightarrow> vkstate \<Rightarrow> vkstate" where
  "DestroyFence sd fence s = vkDestroyFence (device sd) fence s"

definition SubmitCommand :: "SupportedDevice \<Rightarrow> VulkanCommandBuffer \<Rightarrow> handle \<Rightarrow> vkstate \<Rightarrow> unit run" where
  "SubmitCommand sd c fence s =
     (let (result, s1) = vkQueueSubmit (queue sd) (command_buffer c) fence s in
      if result \<noteq> VK_SUCCESS then Inl (AssertFail ''result == VK_SUCCESS'') else Inr ((), s1))"

text \<open>The commands \<open>CreateCommandBuffer\<close> records, in order.\<close>

definition recorded_dispatch :: "VulkanPipeline \<Rightarrow> VulkanDescriptor \<Rightarrow> u32 \<Rightarrow> u32 \<Rightarrow> u32 \<Rightarrow> vk_cmd list" where
  "recorded_dispatch p dsc x y z =
     [CmdBindPipeline (pipeline p), CmdBindDescriptorSets (pipeline_layout p) (descriptor_set dsc),
      CmdDispatch x y z]"

subsection \<open>Creation, submission and destruction\<close>

text \<open>
  C0: with a driver that accepts every call, the device's compute family as the queue index,
  the pipeline and the descriptor set, and group counts within the device's limits,
  \<open>CreateCommandBuffer\<close> creates a command pool for that family and one command buffer
  from it, and leaves the buffer executable with exactly the bind-pipeline,
  bind-descriptor-set and dispatch commands recorded in that order.
\<close>

lemma CreateCommandBuffer_ok:
  assumes "responses s = []"
    and "objs s (device sd) = Some \<lparr>oparent = pd, oinfo = IDevice g (unat (queue_index sd))\<rparr>"
    and "objs s (pipeline p) = Some \<lparr>oparent = device sd, oinfo = IPipeline (pipeline_layout p)\<rparr>"
    and "objs s (pipeline_layout p) = Some \<lparr>oparent = device sd, oinfo = IPipelineLayout ls\<rparr>"
    and "objs s (descriptor_set dsc) = Some \<lparr>oparent = dp, oinfo = IDescriptorSet l b\<rparr>"
    and "max_group_count g = (mx, my, mz)" and "x \<le> mx" and "y \<le> my" and "z \<le> mz"
    and "next_handle s = h" and "objs s h = None" and "objs s (Suc h) = None"
  shows "CreateCommandBuffer sd p dsc x y z s =
           Inr (\<lparr>command_pool = h, command_buffer = Suc h\<rparr>,
                s\<lparr>objs := (objs s)(h \<mapsto> \<lparr>oparent = device sd, oinfo = ICommandPool (unat (queue_index sd))\<rparr>,
                                   Suc h \<mapsto> \<lparr>oparent = h,
                                     oinfo = ICommandBuffer CB_Executable (recorded_dispatch p dsc x y z)\<rparr>),
                   next_handle := Suc (Suc h)\<rparr>)"
proof -
  have "device sd \<noteq> h" "device sd \<noteq> Suc h" "pipeline p \<noteq> Suc h" "pipeline_layout p \<noteq> Suc h"
    "descriptor_set dsc \<noteq> Suc h"
    "pipeline p \<noteq> h" "pipeline_layout p \<noteq> h" "descriptor_set dsc \<noteq> h"
    using assms(2,3,4,5,11,12) by auto
  then show ?thesis
    using assms(1-10)
    by (simp add: CreateCommandBuffer_def vkCreateCommandPool_def vkAllocateCommandBuffers_def
        vkBeginCommandBuffer_def vkCmdBindPipeline_def vkCmdBindDescriptorSets_def vkCmdDispatch_def
        vkEndCommandBuffer_def record_cmd_def dispatch_ok_def cb_gpu_def device_gpu_def device_family_def
        bound_pipeline_def bound_descriptor_set_def cb_cmds_def recorded_dispatch_def
        vk_create_ok set_info_def obj_queries)
qed

lemma CreateFence_ok:
  assumes "responses s = []" and "objs s (device sd) = Some \<lparr>oparent = pd, oinfo = IDevice g fam\<rparr>"
  shows "CreateFence sd s =
           Inr (next_handle s, s\<lparr>objs := (objs s)(next_handle s \<mapsto> \<lparr>oparent = device sd, oinfo = IFence False\<rparr>),
                                  next_handle := Suc (next_handle s)\<rparr>)"
  using assms by (simp add: CreateFence_def vkCreateFence_def vk_create_ok obj_queries)

text \<open>
  Submitting the executable buffer on the device's queue with an unsignaled fence makes it
  pending under that fence.
\<close>

lemma SubmitCommand_ok:
  assumes "responses s = []" and "submitted s = []"
    and "objs s (device sd) = Some \<lparr>oparent = pd, oinfo = IDevice g fam\<rparr>"
    and "queue sd = (device sd, fam)"
    and "objs s (command_pool c) = Some \<lparr>oparent = device sd, oinfo = ICommandPool fam\<rparr>"
    and "objs s (command_buffer c) = Some \<lparr>oparent = command_pool c, oinfo = ICommandBuffer CB_Executable cmds\<rparr>"
    and "objs s f = Some \<lparr>oparent = device sd, oinfo = IFence False\<rparr>"
  shows "SubmitCommand sd c f s =
           Inr ((), s\<lparr>objs := (objs s)(command_buffer c \<mapsto>
                                       \<lparr>oparent = command_pool c, oinfo = ICommandBuffer CB_Pending cmds\<rparr>),
                      submitted := [(command_buffer c, f)]\<rparr>)"
  using assms
  by (simp add: SubmitCommand_def vkQueueSubmit_def device_family_def set_info_def obj_queries)

text \<open>
  A successful wait retires the submission: the one-time buffer becomes invalid and the fence
  signaled.
\<close>

lemma vkWaitForFences_ok:
  assumes "responses s = []" and "submitted s = [(cb, f)]"
    and "objs s cb = Some \<lparr>oparent = pool, oinfo = ICommandBuffer CB_Pending cmds\<rparr>"
    and "objs s f = Some \<lparr>oparent = dev, oinfo = IFence False\<rparr>"
  shows "vkWaitForFences dev f t s =
           (VK_SUCCESS, s\<lparr>objs := (objs s)(cb \<mapsto> \<lparr>oparent = pool, oinfo = ICommandBuffer CB_Invalid cmds\<rparr>,
                                           f \<mapsto> \<lparr>oparent = dev, oinfo = IFence True\<rparr>),
                          submitted := []\<rparr>)"
proof -
  have "cb \<noteq> f" using assms(3,4) by auto
  then show ?thesis using assms
    by (simp add: vkWaitForFences_def complete_fence_def cb_cmds_def set_info_def obj_queries)
qed

lemma DestroyFence_ok:
  assumes "submitted s = []" and "owned_by s f (device sd) VK_OBJECT_TYPE_FENCE"
    and "f \<noteq> VK_NULL_HANDLE"
  shows "DestroyFence sd f s = s\<lparr>objs := (objs s)(f := None)\<rparr>"
  using assms by (simp add: DestroyFence_def vkDestroyFence_def vk_destroy_ok)

lemma DestroyCommandBuffer_ok:
  assumes "submitted s = []"
    and "owned_by s (command_pool c) (device sd) VK_OBJECT_TYPE_COMMAND_POOL"
    and "owned_by s (command_buffer c) (command_pool c) VK_OBJECT_TYPE_COMMAND_BUFFER"
    and "children (objs s) (command_pool c) = {command_buffer c}"
    and "command_pool c \<noteq> VK_NULL_HANDLE" and "command_buffer c \<noteq> VK_NULL_HANDLE"
  shows "DestroyCommandBuffer sd c s =
           s\<lparr>objs := (objs s)(command_buffer c := None, command_pool c := None)\<rparr>"
proof -
  let ?s1 = "s\<lparr>objs := (objs s)(command_buffer c := None)\<rparr>"
  obtain pob where pob: "objs s (command_pool c) = Some pob"
    "obj_type (oinfo pob) = VK_OBJECT_TYPE_COMMAND_POOL" "oparent pob = device sd"
    using assms(2) by (auto simp: owned_by_def split: option.splits)
  obtain cob where cob: "objs s (command_buffer c) = Some cob"
    "obj_type (oinfo cob) = VK_OBJECT_TYPE_COMMAND_BUFFER" "oparent cob = command_pool c"
    using assms(3) by (auto simp: owned_by_def split: option.splits)
  have ne: "command_pool c \<noteq> command_buffer c" using pob cob by auto
  have "children (objs ?s1) (command_pool c) = {}"
    using assms(4) by simp
  then have "remove_with_children (command_pool c) ?s1 = ?s1\<lparr>objs := (objs ?s1)(command_pool c := None)\<rparr>"
    by (rule remove_with_children_none)
  with ne show ?thesis
    using assms(1,5,6) pob cob
    by (simp add: DestroyCommandBuffer_def vkFreeCommandBuffers_def vkDestroyCommandPool_def
        vk_destroy_ok vk_destroy_pool_ok obj_queries)
qed

end
