(* ===== verification/Program.thy ===== *)
theory Program
  imports Commands
begin

unbundle bit_operations_syntax

text \<open>
  \<open>src/main.cpp\<close>: the image size and work-group constants, the conversion of the rendered
  float pixels to RGBA bytes in \<open>SaveRenderedImage\<close>, and \<open>main\<close>, which chains the
  wrappers of \<open>src/Vulkan\<close> in the order the Vulkan object lifecycle requires and tears
  everything down in reverse. The compute shader \<open>comp.spv\<close> is an external binary; the
  pixels it writes are an input of the model (\<open>px i\<close> is \<open>pmappedMemory[i]\<close>). The
  PNG encoder (lodepng), the console output and \<open>std::cin.get()\<close> are not modelled.
  \<open>float\<close> values are modelled as reals, so rounding of the float products is not modelled.
\<close>

record Pixel =
  px_r :: real
  px_g :: real
  px_b :: real
  px_a :: real

definition WIDTH :: u32 where "WIDTH = 3200"
definition HEIGHT :: u32 where "HEIGHT = 2400"
definition work_groups :: u32 where "work_groups = 32"

text \<open>\<open>sizeof(Pixel)\<close>: four \<open>float\<close>s, a \<open>size_t\<close>.\<close>

definition sizeof_Pixel :: u64 where "sizeof_Pixel = 16"

lemmas program_constants = WIDTH_def HEIGHT_def work_groups_def sizeof_Pixel_def

subsection \<open>Work-group counts\<close>

text \<open>\<open>(uint32_t)ceil(n / float(work_groups))\<close>.\<close>

definition group_count :: "u32 \<Rightarrow> u32 \<Rightarrow> u32" where
  "group_count n wg = word_of_nat (nat \<lceil>real (unat n) / real (unat wg)\<rceil>)"

subsection \<open>Saving the rendered image\<close>

text \<open>
  \<open>(unsigned char)(255.0f * c)\<close>: the conversion truncates toward zero and is undefined
  unless the truncated value fits in \<open>unsigned char\<close>, i.e. \<open>-1 < 255 c < 256\<close>.
\<close>

definition to_uchar :: "real \<Rightarrow> abort + u8" where
  "to_uchar c =
     (let v = 255 * c in
      if -1 < v \<and> v < 256 then Inr (word_of_nat (if 0 \<le> v then nat \<lfloor>v\<rfloor> else 0))
      else Inl UndefinedConversion)"

text \<open>The four \<open>push_back\<close>s of one iteration, in order.\<close>

definition pixel_bytes :: "Pixel \<Rightarrow> abort + u8 list" where
  "pixel_bytes p =
     (case to_uchar (px_r p) of Inl e \<Rightarrow> Inl e | Inr r \<Rightarrow>
      case to_uchar (px_g p) of Inl e \<Rightarrow> Inl e | Inr g \<Rightarrow>
      case to_uchar (px_b p) of Inl e \<Rightarrow> Inl e | Inr b \<Rightarrow>
      case to_uchar (px_a p) of Inl e \<Rightarrow> Inl e | Inr a \<Rightarrow> Inr [r, g, b, a])"

text \<open>\<open>for (int i = 0; i < n; i += 1)\<close> appending the bytes of \<open>pmappedMemory[i]\<close>.\<close>

fun image_loop :: "(nat \<Rightarrow> Pixel) \<Rightarrow> nat \<Rightarrow> abort + u8 list" where
  "image_loop px 0 = Inr []"
| "image_loop px (Suc n) =
     (case image_loop px n of
        Inl e \<Rightarrow> Inl e
      | Inr img \<Rightarrow> (case pixel_bytes (px n) of Inl e \<Rightarrow> Inl e | Inr bs \<Rightarrow> Inr (img @ bs)))"

text \<open>
  The result of \<open>vkMapMemory\<close> is not checked: on failure \<open>mappedMemory\<close> stays
  \<open>NULL\<close> and the loop dereferences it. The result is the byte vector handed to
  \<open>lodepng::encode\<close>.
\<close>

definition SaveRenderedImage :: "u32 \<Rightarrow> handle \<Rightarrow> handle \<Rightarrow> (nat \<Rightarrow> Pixel) \<Rightarrow> vkstate \<Rightarrow> u8 list run" where
  "SaveRenderedImage bufferSize dev bufferMemory px s =
     (let (result, s1) = vkMapMemory dev bufferMemory 0 (unat bufferSize) s in
      if result \<noteq> VK_SUCCESS then Inl (NullDereference ''pmappedMemory'')
      else (let s2 = host_read bufferMemory s1 in
            case image_loop px (unat (WIDTH * HEIGHT)) of
              Inl e \<Rightarrow> Inl e
            | Inr img \<Rightarrow> Inr (img, vkUnmapMemory dev bufferMemory s2)))"

subsection \<open>main\<close>

text \<open>
  The body of \<open>main\<close> between device creation and device destruction, on the first
  supported device \<open>gpus[0]\<close>: the buffer, descriptor set, pipeline, command buffer and
  fence, the submission, the wait, the read-back, and the destruction of those objects in the
  source's order. The result of \<open>vkWaitForFences\<close> is ignored, as in the source.
\<close>

definition main_compute :: "SupportedDevice \<Rightarrow> (nat \<Rightarrow> Pixel) \<Rightarrow> vkstate \<Rightarrow> u8 list run" where
  "main_compute gpu0 px s2 =
     bindR (CreateBuffer gpu0 (ucast (sizeof_Pixel * ucast WIDTH * ucast HEIGHT))
              (VK_MEMORY_PROPERTY_HOST_VISIBLE_BIT OR VK_MEMORY_PROPERTY_HOST_COHERENT_BIT) s2)
       (\<lambda>buffer_object s3.
     bindR (CreateDescriptorSet gpu0 buffer_object VK_DESCRIPTOR_TYPE_STORAGE_BUFFER s3) (\<lambda>descriptor_set s4.
     bindR (CreatePipeline gpu0 descriptor_set ''comp.spv'' s4) (\<lambda>pipeline s5.
     bindR (CreateCommandBuffer gpu0 pipeline descriptor_set
              (group_count WIDTH work_groups) (group_count HEIGHT work_groups) 1 s5) (\<lambda>command_buffer s6.
     bindR (CreateFence gpu0 s6) (\<lambda>fence s7.
     bindR (SubmitCommand gpu0 command_buffer fence s7) (\<lambda>_ s8.
     (let (_, s9) = vkWaitForFences (device gpu0) fence 1000000000000 s8 in
     bindR (SaveRenderedImage (ucast (sizeof_Pixel * 3200 * 2400)) (device gpu0)
              (device_memory buffer_object) px s9) (\<lambda>img s10.
     (let s11 = DestroyFence gpu0 fence s10;
          s12 = DestroyCommandBuffer gpu0 command_buffer s11;
          s13 = DestroyPipeline gpu0 pipeline s12;
          s14 = DestroyDescriptorSet gpu0 descriptor_set s13;
          s15 = DestroyBuffer gpu0 buffer_object s14
      in Inr (img, s15))))))))))"

text \<open>
  \<open>main\<close> returns \<open>0\<close> and the image bytes. \<open>gpus[0]\<close> on an empty vector is
  undefined behaviour, made visible as \<open>IndexOutOfRange\<close>.
\<close>

definition main :: "(nat \<Rightarrow> Pixel) \<Rightarrow> vkstate \<Rightarrow> (int \<times> u8 list) run" where
  "main px s0 =
     bindR (CreateVulkanInstance s0) (\<lambda>instance s1.
     bindR (CreateDevices (vulkan_instance instance) s1) (\<lambda>gpus s2.
     case gpus of [] \<Rightarrow> Inl (IndexOutOfRange ''gpus[0]'') | gpu0 # _ \<Rightarrow>
     bindR (main_compute gpu0 px s2) (\<lambda>img s15.
     (let s16 = DestroyDevices gpus s15
      in bindR (DestroyVulkanInstance instance s16) (\<lambda>_ s17. Inr ((0, img), s17))))))"

end
