(* ===== verification/Witnesses.thy ===== *)
theory Witnesses
  imports Program
begin

text \<open>
  A concrete machine on which the component theorems are instantiated: one GPU with a
  graphics-only queue family followed by a graphics-and-compute family, a device-local memory
  type followed by a host-visible, host-coherent one, the validation layer, the debug-report
  extension, and a six-byte \<open>comp.spv\<close> that starts with the SPIR-V magic number. Each
  witness below applies a theorem of the development to this machine and discharges its
  hypotheses by evaluation.
\<close>

definition example_gpu :: physical_gpu where
  "example_gpu =
     \<lparr>gpu_name = ''Example GPU'',
      queue_families = [\<lparr>queueFlags = 1, queueCount = 1\<rparr>, \<lparr>queueFlags = 3, queueCount = 2\<rparr>],
      gpu_layers = [''VK_LAYER_LUNARG_standard_validation''], gpu_extensions = [],
      memory_type_flags = [1, 6], storage_buffer_type_bits = 3,
      max_group_count = (65535, 65535, 65535)\<rparr>"

definition example_spirv :: "u8 list" where
  "example_spirv = [0x03, 0x02, 0x23, 0x07, 0x00, 0x00]"

definition example_env :: vk_env where
  "example_env =
     \<lparr>env_layers = [''VK_LAYER_LUNARG_standard_validation''],
      env_extensions = [''VK_EXT_debug_report''],
      env_gpus = [example_gpu],
      env_files = [''comp.spv'' \<mapsto> example_spirv]\<rparr>"

definition example_state :: "vk_result list \<Rightarrow> vkstate" where
  "example_state rs =
     \<lparr>env = example_env, objs = Map.empty, next_handle = 1, responses = rs, violations = [],
      submitted = []\<rparr>"

lemmas example_defs = example_gpu_def example_spirv_def example_env_def example_state_def

subsection \<open>Instance\<close>

theorem CreateVulkanInstance_ok_witness:
  "CreateVulkanInstance (example_state []) =
     Inr (\<lparr>vulkan_instance = 1, debug_report_callback = 2\<rparr>,
          (example_state [])\<lparr>objs := [1 \<mapsto> \<lparr>oparent = VK_NULL_HANDLE, oinfo = IInstance [''VK_EXT_debug_report'']\<rparr>,
                                     2 \<mapsto> \<lparr>oparent = 1, oinfo = IDebugReportCallback\<rparr>],
                              next_handle := 3\<rparr>)"
  using CreateVulkanInstance_ok [of "example_state []" 1]
  by (simp add: example_defs instance_layer_names_def instance_extension_names_def
      VK_EXT_DEBUG_REPORT_EXTENSION_NAME_def numeral_2_eq_2 numeral_3_eq_3)

theorem CreateVulkanInstance_fails_witness:
  "CreateVulkanInstance (example_state [VK_ERROR_INITIALIZATION_FAILED]) =
     Inl (AssertFail ''Could not create vulkan instance'')"
  using CreateVulkanInstance_fails [of "example_state [VK_ERROR_INITIALIZATION_FAILED]"
                                       VK_ERROR_INITIALIZATION_FAILED "[]"]
  by (simp add: example_defs instance_layer_names_def instance_extension_names_def
      VK_EXT_DEBUG_REPORT_EXTENSION_NAME_def)

subsection \<open>Device\<close>

theorem GetQueueFamilyIndex_spec_witness:
  "length (queue_families example_gpu) < 2 ^ 32
   \<and> GetQueueFamilyIndex (1, example_gpu) \<noteq> -1
   \<and> unat (GetQueueFamilyIndex (1, example_gpu)) = 1"
proof -
  have len: "length (queue_families (snd (1::nat, example_gpu))) < 2 ^ 32"
    by (simp add: example_gpu_def)
  have "GetQueueFamilyIndex (1, example_gpu) = 1"
    by (simp add: GetQueueFamilyIndex_def vkGetPhysicalDeviceQueueFamilyProperties_def example_gpu_def
        is_compute_family_def VK_QUEUE_COMPUTE_BIT_def)
  with GetQueueFamilyIndex_spec [OF len] len show ?thesis by simp
qed

theorem FindPhysicalDevices_spec_witness:
  "FindPhysicalDevices 1 (example_state []) =
     Inr ([\<lparr>spd_physical_device = (1, example_gpu), spd_queue_index = 1,
            spd_device_properties = ''Example GPU''\<rparr>], example_state [])"
  using FindPhysicalDevices_spec [of "example_state []" 1]
  by (simp add: example_defs is_compute_family_def VK_QUEUE_COMPUTE_BIT_def device_layer_names_def
      device_extension_names_def)

end
