(* ===== verification/Spec2Isabelle.thy ===== *)
theory Spec2Isabelle
  imports Witnesses
begin

text \<open>
  ComputeEngine verification development (header to be completed).
\<close>

end
